theory Spec2Isabelle
  imports Complex_Main
begin

section \<open>Python and pygame primitives\<close>

text \<open>
  The game stores velocities, timers and hazard speeds in Python floats. They are modelled
  as exact reals: rounding, infinities and NaN are outside the model. Positions and sizes
  are pygame rectangles, whose four fields are integers.
\<close>

definition py_int :: "real \<Rightarrow> int" where
  \<comment> \<open>Python's \<open>int(x)\<close> on a float: truncation toward zero.\<close>
  "py_int v = (if 0 \<le> v then \<lfloor>v\<rfloor> else \<lceil>v\<rceil>)"

definition c_half :: "int \<Rightarrow> int" where
  \<comment> \<open>C's \<open>k / 2\<close> on ints, as pygame computes centres and inflation: truncation toward zero.\<close>
  "c_half k = (if 0 \<le> k then k div 2 else - ((- k) div 2))"

datatype rect = Rect (rect_x: int) (rect_y: int) (rect_w: int) (rect_h: int)

type_synonym rtuple = "int \<times> int \<times> int \<times> int"

fun Rect_of :: "rtuple \<Rightarrow> rect" where
  \<comment> \<open>\<open>pygame.Rect(t)\<close> and \<open>pygame.Rect(*t)\<close> for a 4-tuple.\<close>
  "Rect_of (a, b, c, d) = Rect a b c d"

definition rect_left :: "rect \<Rightarrow> int" where "rect_left r = rect_x r"
definition rect_top :: "rect \<Rightarrow> int" where "rect_top r = rect_y r"
definition rect_right :: "rect \<Rightarrow> int" where "rect_right r = rect_x r + rect_w r"
definition rect_bottom :: "rect \<Rightarrow> int" where "rect_bottom r = rect_y r + rect_h r"
definition rect_centerx :: "rect \<Rightarrow> int" where "rect_centerx r = rect_x r + c_half (rect_w r)"
definition rect_centery :: "rect \<Rightarrow> int" where "rect_centery r = rect_y r + c_half (rect_h r)"

definition set_x :: "rect \<Rightarrow> int \<Rightarrow> rect" where
  "set_x r v = Rect v (rect_y r) (rect_w r) (rect_h r)"
definition set_y :: "rect \<Rightarrow> int \<Rightarrow> rect" where
  "set_y r v = Rect (rect_x r) v (rect_w r) (rect_h r)"
definition set_left :: "rect \<Rightarrow> int \<Rightarrow> rect" where
  "set_left r v = set_x r v"
definition set_right :: "rect \<Rightarrow> int \<Rightarrow> rect" where
  "set_right r v = set_x r (v - rect_w r)"
definition set_top :: "rect \<Rightarrow> int \<Rightarrow> rect" where
  "set_top r v = set_y r v"
definition set_bottom :: "rect \<Rightarrow> int \<Rightarrow> rect" where
  "set_bottom r v = set_y r (v - rect_h r)"
definition set_topleft :: "rect \<Rightarrow> int \<times> int \<Rightarrow> rect" where
  "set_topleft r p = Rect (fst p) (snd p) (rect_w r) (rect_h r)"
definition set_center :: "rect \<Rightarrow> int \<times> int \<Rightarrow> rect" where
  "set_center r p = Rect (fst p - c_half (rect_w r)) (snd p - c_half (rect_h r)) (rect_w r) (rect_h r)"

definition inflate :: "rect \<Rightarrow> int \<Rightarrow> int \<Rightarrow> rect" where
  \<comment> \<open>\<open>Rect.inflate(dx, dy)\<close>: a new rectangle, grown around the same centre.\<close>
  "inflate r dx dy = Rect (rect_x r - c_half dx) (rect_y r - c_half dy) (rect_w r + dx) (rect_h r + dy)"

definition rect_truthy :: "rect \<Rightarrow> bool" where
  \<comment> \<open>The truth value of a pygame rectangle: both sizes non-zero.\<close>
  "rect_truthy r = (rect_w r \<noteq> 0 \<and> rect_h r \<noteq> 0)"

definition colliderect :: "rect \<Rightarrow> rect \<Rightarrow> bool" where
  \<comment> \<open>\<open>a.colliderect(b)\<close> of pygame 2: rectangles of zero size collide with nothing, and
      touching edges do not overlap.\<close>
  "colliderect a b =
     (if rect_w a = 0 \<or> rect_h a = 0 \<or> rect_w b = 0 \<or> rect_h b = 0 then False
      else min (rect_x a) (rect_x a + rect_w a) < max (rect_x b) (rect_x b + rect_w b)
         \<and> min (rect_y a) (rect_y a + rect_h a) < max (rect_y b) (rect_y b + rect_h b)
         \<and> max (rect_x a) (rect_x a + rect_w a) > min (rect_x b) (rect_x b + rect_w b)
         \<and> max (rect_y a) (rect_y a + rect_h a) > min (rect_y b) (rect_y b + rect_h b))"

definition touches :: "rect option \<Rightarrow> rect \<Rightarrow> bool" where
  \<comment> \<open>The guard \<open>player_rect and player_rect.colliderect(zone)\<close> of the trigger hazards.\<close>
  "touches player_rect zone =
     (case player_rect of None \<Rightarrow> False | Some p \<Rightarrow> rect_truthy p \<and> colliderect p zone)"

section \<open>config.py\<close>

definition SCREEN_WIDTH :: int where "SCREEN_WIDTH = 960"
definition SCREEN_HEIGHT :: int where "SCREEN_HEIGHT = 700"
definition TILE_SIZE :: int where "TILE_SIZE = 40"
definition LEVEL_SCROLL_LENGTH :: int where "LEVEL_SCROLL_LENGTH = 4"
definition PLAYER_SPEED :: real where "PLAYER_SPEED = 8"
definition JUMP_FORCE :: real where "JUMP_FORCE = - 22"
definition GRAVITY :: real where "GRAVITY = 0.8"
definition MAX_FALL_SPEED :: real where "MAX_FALL_SPEED = 14"
definition COYOTE_TIME :: real where "COYOTE_TIME = 0.15"
definition JUMP_BUFFER_TIME :: real where "JUMP_BUFFER_TIME = 0.15"

section \<open>hazards.py\<close>

subsection \<open>OscillatingHazard\<close>

record oscillating_hazard =
  osc_base_rect :: rect
  osc_rect :: rect
  osc_axis :: string
  osc_amplitude :: int
  osc_speed :: real
  osc_timer :: real

definition OscillatingHazard :: "rtuple \<Rightarrow> string \<Rightarrow> int \<Rightarrow> real \<Rightarrow> oscillating_hazard" where
  "OscillatingHazard rect_tuple axis amplitude speed =
     \<lparr>osc_base_rect = Rect_of rect_tuple, osc_rect = Rect_of rect_tuple, osc_axis = axis,
      osc_amplitude = amplitude, osc_speed = speed, osc_timer = 0\<rparr>"

definition osc_update :: "real \<Rightarrow> rect option \<Rightarrow> oscillating_hazard \<Rightarrow> oscillating_hazard" where
  "osc_update dt player_rect h =
     (let timer = osc_timer h + dt;
          offset = sin (timer * osc_speed h) * real_of_int (osc_amplitude h)
      in if osc_axis h = ''x''
         then h\<lparr>osc_timer := timer,
                osc_rect := set_x (osc_rect h) (py_int (real_of_int (rect_x (osc_base_rect h)) + offset))\<rparr>
         else h\<lparr>osc_timer := timer,
                osc_rect := set_y (osc_rect h) (py_int (real_of_int (rect_y (osc_base_rect h)) + offset))\<rparr>)"

definition osc_collides :: "oscillating_hazard \<Rightarrow> rect \<Rightarrow> bool" where
  "osc_collides h r = colliderect (osc_rect h) (inflate r (- 8) (- 8))"

fun osc_run :: "oscillating_hazard \<Rightarrow> (real \<times> rect option) list \<Rightarrow> oscillating_hazard" where
  \<comment> \<open>A sequence of \<open>update(dt, player_rect)\<close> calls on one hazard.\<close>
  "osc_run h [] = h"
| "osc_run h (c # cs) = osc_run (osc_update (fst c) (snd c) h) cs"

subsection \<open>TriggerSpike\<close>

record trigger_spike =
  ts_trigger_rect :: rect
  ts_rest_rect :: rect
  ts_rect :: rect
  ts_hidden_y :: int
  ts_target_y :: int
  ts_rise_speed :: real
  ts_active :: bool

definition TriggerSpike :: "rtuple \<Rightarrow> rtuple \<Rightarrow> int \<Rightarrow> real \<Rightarrow> trigger_spike" where
  "TriggerSpike trigger_rect spike_rect rise_pixels rise_speed =
     \<lparr>ts_trigger_rect = Rect_of trigger_rect, ts_rest_rect = Rect_of spike_rect,
      ts_rect = set_y (Rect_of spike_rect) (rect_y (Rect_of spike_rect) + rise_pixels),
      ts_hidden_y = rect_y (Rect_of spike_rect) + rise_pixels,
      ts_target_y = rect_y (Rect_of spike_rect),
      ts_rise_speed = rise_speed, ts_active = False\<rparr>"

definition ts_update :: "real \<Rightarrow> rect option \<Rightarrow> trigger_spike \<Rightarrow> trigger_spike" where
  "ts_update dt player_rect s =
     (let s1 = (if \<not> ts_active s \<and> touches player_rect (ts_trigger_rect s)
                then s\<lparr>ts_active := True\<rparr> else s)
      in if ts_active s1 \<and> rect_y (ts_rect s1) > ts_target_y s1
         then s1\<lparr>ts_rect := set_y (ts_rect s1)
                    (max (ts_target_y s1) (rect_y (ts_rect s1) - py_int (ts_rise_speed s1 * dt)))\<rparr>
         else s1)"

definition ts_collides :: "trigger_spike \<Rightarrow> rect \<Rightarrow> bool" where
  "ts_collides s r = (ts_active s \<and> colliderect (ts_rect s) (inflate r (- 8) (- 8)))"


subsection \<open>SwingingAxe\<close>

record swinging_axe =
  axe_pivot :: "real \<times> real"
  axe_length :: int
  axe_swing_radians :: real
  axe_speed :: real
  axe_time :: real
  axe_rect :: rect

definition SwingingAxe :: "int \<times> int \<Rightarrow> int \<Rightarrow> int \<times> int \<Rightarrow> int \<Rightarrow> real \<Rightarrow> swinging_axe" where
  "SwingingAxe pivot len blade_size swing_degrees speed =
     \<lparr>axe_pivot = (real_of_int (fst pivot), real_of_int (snd pivot)), axe_length = len,
      axe_swing_radians = real_of_int swing_degrees * pi / 180, axe_speed = speed,
      axe_time = 0, axe_rect = Rect 0 0 (fst blade_size) (snd blade_size)\<rparr>"

definition axe_update :: "real \<Rightarrow> rect option \<Rightarrow> swinging_axe \<Rightarrow> swinging_axe" where
  "axe_update dt player_rect a =
     (let time = axe_time a + dt;
          angle = sin (time * axe_speed a) * axe_swing_radians a;
          blade_center_x = fst (axe_pivot a) + sin angle * real_of_int (axe_length a);
          blade_center_y = snd (axe_pivot a) + cos angle * real_of_int (axe_length a)
      in a\<lparr>axe_time := time,
           axe_rect := set_center (axe_rect a) (py_int blade_center_x, py_int blade_center_y)\<rparr>)"

definition axe_collides :: "swinging_axe \<Rightarrow> rect \<Rightarrow> bool" where
  "axe_collides a r = colliderect (axe_rect a) (inflate r (- 8) (- 8))"

subsection \<open>ChasingHazard\<close>

record chasing_hazard =
  ch_pos :: "real \<times> real"
  ch_speed :: real
  ch_max_time :: real
  ch_timer :: real
  ch_is_active :: bool
  ch_rect :: rect

definition ChasingHazard :: "int \<times> int \<Rightarrow> real \<Rightarrow> real \<Rightarrow> chasing_hazard" where
  "ChasingHazard spawn_pos speed max_time =
     \<lparr>ch_pos = (real_of_int (fst spawn_pos), real_of_int (snd spawn_pos)), ch_speed = speed,
      ch_max_time = max_time, ch_timer = max_time, ch_is_active = True,
      ch_rect = Rect 0 0 TILE_SIZE TILE_SIZE\<rparr>"

definition ch_update :: "real \<Rightarrow> rect option \<Rightarrow> chasing_hazard \<Rightarrow> chasing_hazard" where
  "ch_update dt player_rect c =
     (if \<not> ch_is_active c then c
      else let c1 = c\<lparr>ch_timer := ch_timer c - dt\<rparr>
           in if ch_timer c1 \<le> 0 then c1\<lparr>ch_is_active := False\<rparr>
              else (case player_rect of
                      None \<Rightarrow> c1
                    | Some p \<Rightarrow>
                        if \<not> rect_truthy p then c1
                        else let direction_x = real_of_int (rect_centerx p) - fst (ch_pos c1);
                                 px = (if direction_x > 0
                                       then fst (ch_pos c1) + min direction_x (ch_speed c1 * dt)
                                       else if direction_x < 0
                                       then fst (ch_pos c1) + max direction_x (- ch_speed c1 * dt)
                                       else fst (ch_pos c1))
                             in c1\<lparr>ch_pos := (px, snd (ch_pos c1)),
                                   ch_rect := set_topleft (ch_rect c1)
                                     (py_int (px - real_of_int (rect_w (ch_rect c1)) / 2),
                                      py_int (snd (ch_pos c1)))\<rparr>))"

definition ch_collides :: "chasing_hazard \<Rightarrow> rect \<Rightarrow> bool" where
  "ch_collides c r = (ch_is_active c \<and> colliderect (ch_rect c) (inflate r (- 8) (- 8)))"

subsection \<open>DisappearingPlatform\<close>

record disappearing_platform =
  dp_trigger_rect :: rect
  dp_target_platform_rect :: rect
  dp_is_removed :: bool

definition DisappearingPlatform :: "rtuple \<Rightarrow> rect \<Rightarrow> disappearing_platform" where
  "DisappearingPlatform trigger_rect_tuple target_platform_rect =
     \<lparr>dp_trigger_rect = Rect_of trigger_rect_tuple,
      dp_target_platform_rect = target_platform_rect, dp_is_removed = False\<rparr>"

definition dp_update :: "real \<Rightarrow> rect option \<Rightarrow> disappearing_platform \<Rightarrow> disappearing_platform" where
  "dp_update dt player_rect d =
     (if \<not> dp_is_removed d \<and> touches player_rect (dp_trigger_rect d)
      then d\<lparr>dp_is_removed := True\<rparr> else d)"

subsection \<open>CrushingHazard\<close>

datatype crusher_state = IDLE | SLAMMING | RETURNING

record crushing_hazard =
  cr_base_rect :: rect
  cr_rect :: rect
  cr_slam_height :: int
  cr_speed :: real
  cr_return_speed :: real
  cr_state :: crusher_state
  cr_target_y :: int

definition CrushingHazard :: "rtuple \<Rightarrow> int \<Rightarrow> real \<Rightarrow> real \<Rightarrow> crushing_hazard" where
  "CrushingHazard rect_tuple slam_height speed return_speed =
     \<lparr>cr_base_rect = Rect_of rect_tuple, cr_rect = Rect_of rect_tuple,
      cr_slam_height = slam_height, cr_speed = speed, cr_return_speed = return_speed,
      cr_state = IDLE, cr_target_y = rect_y (Rect_of rect_tuple) + slam_height\<rparr>"

definition cr_update :: "real \<Rightarrow> rect option \<Rightarrow> crushing_hazard \<Rightarrow> crushing_hazard" where
  "cr_update dt player_rect c =
     (case cr_state c of
        IDLE \<Rightarrow>
          (case player_rect of
             None \<Rightarrow> c
           | Some p \<Rightarrow> if rect_truthy p \<and> \<bar>rect_centerx p - rect_centerx (cr_rect c)\<bar> < 100
                       then c\<lparr>cr_state := SLAMMING\<rparr> else c)
      | SLAMMING \<Rightarrow>
          (let y1 = rect_y (cr_rect c) + py_int (cr_speed c * dt)
           in if y1 \<ge> cr_target_y c
              then c\<lparr>cr_rect := set_y (cr_rect c) (cr_target_y c), cr_state := RETURNING\<rparr>
              else c\<lparr>cr_rect := set_y (cr_rect c) y1\<rparr>)
      | RETURNING \<Rightarrow>
          (let y1 = rect_y (cr_rect c) - py_int (cr_return_speed c * dt)
           in if y1 \<le> rect_y (cr_base_rect c)
              then c\<lparr>cr_rect := set_y (cr_rect c) (rect_y (cr_base_rect c)), cr_state := IDLE\<rparr>
              else c\<lparr>cr_rect := set_y (cr_rect c) y1\<rparr>))"

definition cr_collides :: "crushing_hazard \<Rightarrow> rect \<Rightarrow> bool" where
  "cr_collides c r = colliderect (cr_rect c) r"

section \<open>level\_manager.py\<close>

definition TILE :: int where "TILE = TILE_SIZE"
definition GROUND_Y :: int where "GROUND_Y = SCREEN_HEIGHT - TILE"
definition LEVEL_LENGTH :: int where "LEVEL_LENGTH = SCREEN_WIDTH * LEVEL_SCROLL_LENGTH"

definition R :: "int \<Rightarrow> int \<Rightarrow> int \<Rightarrow> int \<Rightarrow> rtuple" where
  "R x y w h = (TILE * x, GROUND_Y - TILE * y, TILE * w, TILE * h)"

fun xy :: "rtuple \<Rightarrow> int \<times> int" where
  \<comment> \<open>The slice \<open>t[0:2]\<close> of a 4-tuple.\<close>
  "xy (a, b, c, d) = (a, b)"

text \<open>
  A blueprint is a dictionary in the source. Every blueprint of the table has all twelve
  keys and every hazard entry spells out its optional keys, so the defaults of the
  \<open>get\<close> calls are never used and a record with all fields holds the same data.
  Entries: oscillators (rect, axis, amplitude, speed), triggers (trigger, spike),
  axes (pivot, length, swing\_degrees, speed), chasers (spawn, speed, max\_time),
  disappear (trigger, platform), crushers (rect, slam\_height).
\<close>

record blueprint =
  bp_id :: int
  bp_name :: string
  bp_spawn :: "int \<times> int"
  bp_goal :: rtuple
  bp_platforms :: "rtuple list"
  bp_static_traps :: "rtuple list"
  bp_oscillators :: "(rtuple \<times> string \<times> int \<times> real) list"
  bp_triggers :: "(rtuple \<times> rtuple) list"
  bp_axes :: "((int \<times> int) \<times> int \<times> int \<times> real) list"
  bp_chasers :: "((int \<times> int) \<times> real \<times> real) list"
  bp_disappear :: "(rtuple \<times> rtuple) list"
  bp_crushers :: "(rtuple \<times> int) list"

definition level_1 :: blueprint where
  "level_1 =
     \<lparr>bp_id = 1, bp_name = ''Level 1: The Descent'',
      bp_spawn = (TILE * 2, GROUND_Y - TILE * 2),
      bp_goal = R 75 2 2 3,
      bp_platforms =
       [R 0 1 10 1, R 12 3 3 1, R 18 5 3 1, R 24 7 5 1, R 35 4 5 1, R 45 2 10 1, R 60 1 15 1],
      bp_static_traps =
       [R 10 1 2 1, R 30 1 5 1, R 55 1 5 1],
      bp_oscillators =
       [(R 40 6 2 1, ''y'', 100, 3), (R 15 5 2 1, ''x'', 60, 2.5)],
      bp_triggers =
       [(R 24 8 2 2, R 26 7 1 1), (R 68 2 2 2, R 70 1 1 1)],
      bp_axes =
       [(xy (R 30 10 1 1), 120, 60, 1.5), (xy (R 50 8 1 1), 100, 45, 2)],
      bp_chasers =
       [(xy (R 45 8 1 1), 100, 3), (xy (R 65 5 1 1), 120, 4)],
      bp_disappear =
       [(R 35 5 2 2, R 35 4 5 1)],
      bp_crushers =
       [(R 50 12 2 2, 380), (R 10 10 2 2, 300)]\<rparr>"

definition level_2 :: blueprint where
  "level_2 =
     \<lparr>bp_id = 2, bp_name = ''Level 2: The Grinder'',
      bp_spawn = (TILE * 2, GROUND_Y - TILE * 2),
      bp_goal = R 85 8 2 3,
      bp_platforms =
       [R 0 1 10 1, R 15 3 5 1, R 25 5 4 1, R 35 7 4 1, R 45 1 15 1, R 65 4 5 1, R 75 6 12 1],
      bp_static_traps =
       [R 10 1 35 1, R 60 1 15 1],
      bp_oscillators =
       [(R 20 4 2 1, ''y'', 80, 4), (R 40 6 2 1, ''x'', 120, 2.5)],
      bp_triggers =
       [(R 45 2 5 2, R 47 2 1 1), (R 75 7 3 2, R 78 6 1 1)],
      bp_axes =
       [(xy (R 55 10 1 1), 150, 90, 2), (xy (R 35 12 1 1), 120, 60, 2.5)],
      bp_chasers =
       [(xy (R 70 7 1 1), 180, 3), (xy (R 10 6 1 1), 150, 5)],
      bp_disappear =
       [(R 25 6 2 2, R 25 5 4 1)],
      bp_crushers =
       [(R 30 12 3 2, 380), (R 50 12 2 2, 400), (R 80 10 2 2, 200)]\<rparr>"

definition level_3 :: blueprint where
  "level_3 =
     \<lparr>bp_id = 3, bp_name = ''Level 3: Trust Issues'',
      bp_spawn = (TILE * 2, GROUND_Y - TILE * 2),
      bp_goal = R 100 1 3 3,
      bp_platforms =
       [R 0 1 15 1, R 20 3 10 1, R 40 5 10 1, R 60 3 10 1, R 80 1 20 1],
      bp_static_traps =
       [R 15 1 5 1, R 30 1 10 1, R 50 1 10 1, R 70 1 10 1],
      bp_oscillators =
       [(R 25 6 2 1, ''y'', 120, 3.5), (R 55 4 2 1, ''x'', 80, 2.2)],
      bp_triggers =
       [(R 40 6 3 2, R 43 5 1 1), (R 85 2 3 2, R 88 1 1 1), (R 10 3 2 2, R 12 1 1 1)],
      bp_axes =
       [(xy (R 50 10 1 1), 140, 80, 2), (xy (R 75 12 1 1), 120, 60, 2.5)],
      bp_chasers =
       [(xy (R 20 10 1 1), 120, 3), (xy (R 90 5 1 1), 150, 4)],
      bp_disappear =
       [(R 40 0 10 10, R 40 5 10 1), (R 60 0 10 10, R 60 3 10 1)],
      bp_crushers =
       [(R 10 12 2 2, 400)]\<rparr>"

definition level_4 :: blueprint where
  "level_4 =
     \<lparr>bp_id = 4, bp_name = ''Level 4: The Gauntlet'',
      bp_spawn = (TILE * 2, GROUND_Y - TILE * 2),
      bp_goal = R 130 2 2 3,
      bp_platforms =
       [R 0 1 10 1, R 25 7 6 1, R 50 6 35 1, R 95 3 12 1, R 115 1 20 1],
      bp_static_traps =
       [R 10 1 5 1, R 41 1 9 1, R 85 6 10 1, R 107 3 8 1],
      bp_oscillators =
       [(R 20 8 2 1, ''y'', 60, 5), (R 70 10 2 1, ''y'', 80, 4),
        (R 105 5 2 1, ''x'', 100, 3)],
      bp_triggers =
       [(R 50 7 2 2, R 52 6 1 1), (R 65 7 2 2, R 67 6 1 1), (R 80 7 2 2, R 82 6 1 1),
        (R 110 2 2 2, R 112 1 1 1)],
      bp_axes =
       [(xy (R 45 13 1 1), 160, 80, 2.5), (xy (R 90 11 1 1), 140, 60, 3),
        (xy (R 120 10 1 1), 120, 90, 3.5)],
      bp_chasers =
       [(xy (R 55 12 1 1), 220, 4), (xy (R 100 6 1 1), 240, 3), (xy (R 20 5 1 1), 200, 4),
        (xy (R 125 8 1 1), 260, 5)],
      bp_disappear =
       [(R 12 4 3 2, R 15 4 6 1), (R 32 9 3 2, R 35 9 6 1)],
      bp_crushers =
       [(R 60 16 2 2, 550), (R 75 16 2 2, 550), (R 95 14 2 2, 400)]\<rparr>"

definition level_5 :: blueprint where
  "level_5 =
     \<lparr>bp_id = 5, bp_name = ''Level 5: Crushing Depths'',
      bp_spawn = (TILE * 2, GROUND_Y - TILE * 2),
      bp_goal = R 110 1 3 5,
      bp_platforms =
       [R 0 1 10 1, R 15 3 8 1, R 28 6 8 1, R 42 9 8 1, R 55 6 8 1, R 70 3 8 1, R 85 1 30 1],
      bp_static_traps =
       [R 10 1 5 1, R 23 1 5 1, R 36 1 6 1, R 50 1 5 1, R 63 1 7 1, R 78 1 7 1],
      bp_oscillators =
       [(R 28 8 2 1, ''y'', 80, 4), (R 65 10 3 1, ''x'', 120, 3),
        (R 42 11 2 1, ''y'', 60, 4.5)],
      bp_triggers =
       [(R 35 7 2 2, R 37 6 1 1), (R 70 4 2 2, R 72 3 1 1), (R 90 2 3 2, R 93 1 1 1)],
      bp_axes =
       [(xy (R 50 14 1 1), 180, 90, 2.5), (xy (R 90 12 1 1), 140, 100, 3),
        (xy (R 20 10 1 1), 100, 60, 4)],
      bp_chasers =
       [(xy (R 105 10 1 1), 240, 4), (xy (R 5 5 1 1), 180, 5), (xy (R 60 8 1 1), 210, 3)],
      bp_disappear =
       [(R 50 8 2 2, R 55 6 8 1), (R 15 4 2 2, R 15 3 8 1)],
      bp_crushers =
       [(R 45 14 2 2, 450), (R 100 14 2 2, 500), (R 115 12 2 2, 300)]\<rparr>"

definition level_6 :: blueprint where
  "level_6 =
     \<lparr>bp_id = 6, bp_name = ''Level 6: The Climb'',
      bp_spawn = (TILE * 2, GROUND_Y - TILE * 2),
      bp_goal = R 65 14 2 4,
      bp_platforms =
       [R 0 1 10 1, R 12 3 3 1, R 18 6 3 1, R 24 9 3 1, R 32 12 3 1, R 45 10 4 1,
        R 55 14 15 1],
      bp_static_traps =
       [R 10 1 55 1],
      bp_oscillators =
       [(R 16 8 1 1, ''y'', 120, 4.5), (R 30 10 1 1, ''x'', 140, 3),
        (R 40 12 1 2, ''y'', 150, 5)],
      bp_triggers =
       [(R 32 13 2 2, R 34 12 1 1), (R 55 15 3 2, R 58 14 1 1), (R 5 2 5 2, R 8 1 1 1)],
      bp_axes =
       [(xy (R 42 16 1 1), 180, 120, 2.2), (xy (R 20 18 1 1), 150, 90, 3),
        (xy (R 58 18 1 1), 130, 45, 4)],
      bp_chasers =
       [(xy (R 60 10 1 1), 250, 4), (xy (R 15 12 1 1), 200, 6)],
      bp_disappear =
       [(R 18 7 2 2, R 18 6 3 1), (R 32 14 2 2, R 32 12 3 1)],
      bp_crushers =
       [(R 35 18 2 2, 500), (R 55 18 2 2, 400)]\<rparr>"

definition level_7 :: blueprint where
  "level_7 =
     \<lparr>bp_id = 7, bp_name = ''Level 7: Panic'',
      bp_spawn = (TILE * 2, GROUND_Y - TILE * 2),
      bp_goal = R 130 4 2 4,
      bp_platforms =
       [R 0 1 10 1, R 15 3 4 1, R 25 5 4 1, R 35 7 4 1, R 45 5 4 1, R 55 3 4 1, R 65 1 70 1],
      bp_static_traps =
       [R 10 1 120 1],
      bp_oscillators =
       [(R 12 5 1 2, ''x'', 120, 5), (R 42 8 1 2, ''x'', 150, 4.5),
        (R 72 3 1 2, ''x'', 180, 5.5), (R 100 5 2 1, ''y'', 100, 4)],
      bp_triggers =
       [(R 65 2 5 2, R 68 1 1 1), (R 85 2 5 2, R 88 1 1 1), (R 105 2 5 2, R 108 1 1 1)],
      bp_axes =
       [(xy (R 80 12 1 1), 160, 90, 2.5)],
      bp_chasers =
       [(xy (R 90 7 1 1), 260, 4.5), (xy (R 110 7 1 1), 280, 4), (xy (R 40 10 1 1), 200, 5)],
      bp_disappear =
       [(R 25 6 2 2, R 25 5 4 1), (R 45 6 2 2, R 45 5 4 1), (R 80 2 2 2, R 65 1 10 1)],
      bp_crushers =
       [(R 50 14 2 2, 450), (R 100 14 2 2, 500)]\<rparr>"

definition level_8 :: blueprint where
  "level_8 =
     \<lparr>bp_id = 8, bp_name = ''Level 8: Precision'',
      bp_spawn = (TILE * 2, GROUND_Y - TILE * 2),
      bp_goal = R 85 6 2 4,
      bp_platforms =
       [R 0 1 5 1, R 12 3 2 1, R 22 6 2 1, R 32 9 2 1, R 42 6 2 1, R 52 3 2 1, R 65 5 25 1],
      bp_static_traps =
       [R 5 1 80 1],
      bp_oscillators =
       [(R 15 8 1 1, ''y'', 100, 4), (R 35 12 1 1, ''y'', 120, 4.5),
        (R 22 10 1 1, ''x'', 80, 3)],
      bp_triggers =
       [(R 65 6 3 2, R 67 5 1 1), (R 75 6 3 2, R 77 5 1 1), (R 40 1 5 1, R 42 1 1 1)],
      bp_axes =
       [(xy (R 28 14 1 1), 180, 60, 3), (xy (R 48 14 1 1), 180, 60, 3),
        (xy (R 65 12 1 1), 140, 100, 2.5)],
      bp_chasers =
       [(xy (R 80 10 1 1), 220, 4), (xy (R 20 12 1 1), 180, 8)],
      bp_disappear =
       [(R 32 10 2 2, R 32 9 2 1), (R 12 5 2 2, R 12 3 2 1)],
      bp_crushers =
       [(R 28 14 2 2, 400), (R 52 14 2 2, 400)]\<rparr>"

definition level_9 :: blueprint where
  "level_9 =
     \<lparr>bp_id = 9, bp_name = ''Level 9: The Gauntlet'',
      bp_spawn = (TILE * 2, GROUND_Y - TILE * 2),
      bp_goal = R 125 4 3 5,
      bp_platforms =
       [R 0 1 10 1, R 15 3 8 1, R 30 6 8 1, R 45 9 8 1, R 60 6 8 1, R 75 3 8 1, R 90 1 40 1],
      bp_static_traps =
       [R 10 1 10 1, R 23 1 15 1, R 38 1 15 1, R 53 1 15 1, R 68 1 15 1, R 83 1 15 1],
      bp_oscillators =
       [(R 45 12 2 1, ''y'', 100, 4), (R 85 12 2 1, ''y'', 120, 3.5),
        (R 60 15 2 1, ''x'', 100, 2.5)],
      bp_triggers =
       [(R 30 7 3 2, R 33 6 1 1), (R 100 2 5 2, R 105 1 1 1)],
      bp_axes =
       [(xy (R 25 15 1 1), 180, 90, 2.5), (xy (R 65 15 1 1), 180, 120, 2),
        (xy (R 105 15 1 1), 180, 180, 2.8)],
      bp_chasers =
       [(xy (R 110 14 1 1), 260, 4.5), (xy (R 20 10 1 1), 200, 6),
        (xy (R 70 12 1 1), 240, 4)],
      bp_disappear =
       [(R 45 10 2 2, R 45 9 8 1), (R 75 4 2 2, R 75 3 8 1)],
      bp_crushers =
       [(R 50 16 2 2, 550), (R 80 16 2 2, 500), (R 110 16 2 2, 600)]\<rparr>"

definition level_10 :: blueprint where
  "level_10 =
     \<lparr>bp_id = 10, bp_name = ''Level 10: Betrayal'',
      bp_spawn = (TILE * 2, GROUND_Y - TILE * 2),
      bp_goal = R 140 8 2 4,
      bp_platforms =
       [R 0 1 12 1, R 18 3 4 1, R 28 5 4 1, R 38 7 4 1, R 50 4 10 1, R 70 6 10 1,
        R 90 8 10 1, R 110 3 10 1, R 130 8 20 1],
      bp_static_traps =
       [R 12 1 128 1],
      bp_oscillators =
       [(R 15 6 1 1, ''y'', 80, 4), (R 45 9 1 1, ''x'', 100, 3),
        (R 110 12 2 1, ''y'', 150, 5)],
      bp_triggers =
       [(R 50 5 3 2, R 52 4 1 1), (R 90 9 3 2, R 92 8 1 1), (R 130 9 3 2, R 135 8 1 1)],
      bp_axes =
       [(xy (R 60 15 1 1), 140, 180, 1.8), (xy (R 100 15 1 1), 140, 180, 2.2),
        (xy (R 30 12 1 1), 120, 90, 3)],
      bp_chasers =
       [(xy (R 120 10 1 1), 280, 3), (xy (R 10 5 1 1), 220, 5)],
      bp_disappear =
       [(R 38 8 2 2, R 38 7 4 1), (R 70 7 2 2, R 70 6 10 1), (R 110 4 2 2, R 110 3 10 1)],
      bp_crushers =
       [(R 50 16 2 2, 550), (R 90 16 2 2, 500)]\<rparr>"

definition level_11 :: blueprint where
  "level_11 =
     \<lparr>bp_id = 11, bp_name = ''Level 11: Chaos'',
      bp_spawn = (TILE * 2, GROUND_Y - TILE * 2),
      bp_goal = R 160 10 2 5,
      bp_platforms =
       [R 0 1 12 1, R 15 4 10 1, R 35 7 10 1, R 55 10 10 1, R 75 13 10 1, R 95 10 10 1,
        R 115 7 10 1, R 135 4 10 1, R 155 10 20 1],
      bp_static_traps =
       [R 10 1 150 1],
      bp_oscillators =
       [(R 20 12 2 1, ''y'', 120, 5), (R 60 15 2 1, ''x'', 150, 4),
        (R 100 12 2 1, ''y'', 120, 5), (R 140 15 2 1, ''x'', 120, 4.5)],
      bp_triggers =
       [(R 35 8 3 2, R 37 7 1 1), (R 135 5 3 2, R 137 4 1 1), (R 75 14 3 2, R 78 13 1 1),
        (R 95 11 3 2, R 98 10 1 1)],
      bp_axes =
       [(xy (R 45 16 1 1), 180, 180, 2), (xy (R 85 18 1 1), 200, 360, 3),
        (xy (R 125 16 1 1), 180, 180, 2), (xy (R 160 15 1 1), 150, 90, 4)],
      bp_chasers =
       [(xy (R 50 15 1 1), 280, 4), (xy (R 140 15 1 1), 300, 3.5), (xy (R 5 10 1 1), 250, 6)],
      bp_disappear =
       [(R 75 14 2 2, R 75 13 10 1), (R 55 11 2 2, R 55 10 10 1)],
      bp_crushers =
       [(R 35 18 2 2, 500), (R 115 18 2 2, 500)]\<rparr>"

definition level_12 :: blueprint where
  "level_12 =
     \<lparr>bp_id = 12, bp_name = ''Level 12: The Gatekeeper'',
      bp_spawn = (TILE * 2, GROUND_Y - TILE * 2),
      bp_goal = R 180 8 3 5,
      bp_platforms =
       [R 0 1 10 1, R 15 5 2 1, R 25 8 2 1, R 35 11 2 1, R 45 14 2 1, R 55 17 2 1,
        R 80 15 3 1, R 105 12 3 1, R 130 9 3 1, R 155 6 3 1, R 175 8 30 1],
      bp_static_traps =
       [R 10 1 170 1],
      bp_oscillators =
       [(R 17 10 2 4, ''y'', 150, 4), (R 47 16 2 4, ''y'', 150, 4.5),
        (R 90 18 5 1, ''x'', 250, 3), (R 110 20 2 1, ''y'', 200, 3.5)],
      bp_triggers =
       [(R 175 9 5 2, R 180 8 1 1), (R 80 16 3 2, R 83 15 1 1)],
      bp_axes =
       [(xy (R 140 18 1 1), 250, 360, 5), (xy (R 160 15 1 1), 200, 360, 4),
        (xy (R 60 20 1 1), 180, 360, 3)],
      bp_chasers =
       [(xy (R 5 6 1 1), 350, 4), (xy (R 85 15 1 1), 380, 3.5), (xy (R 150 10 1 1), 300, 4)],
      bp_disappear =
       [(R 35 12 2 2, R 35 11 2 1), (R 130 10 2 2, R 130 9 3 1), (R 15 6 2 2, R 15 5 2 1)],
      bp_crushers =
       [(R 70 20 2 2, 650), (R 150 18 2 2, 600), (R 100 18 2 2, 550)]\<rparr>"

definition level_13 :: blueprint where
  "level_13 =
     \<lparr>bp_id = 13, bp_name = ''BOSS: The Devil's Throne'',
      bp_spawn = (TILE * 2, GROUND_Y - TILE * 2),
      bp_goal = R 200 5 4 8,
      bp_platforms =
       [R 0 1 15 1, R 20 4 6 1, R 35 8 6 1, R 50 12 6 1, R 70 15 20 1, R 100 12 10 1,
        R 125 8 10 1, R 150 4 10 1, R 175 1 40 1],
      bp_static_traps =
       [R 15 1 185 1],
      bp_oscillators =
       [(R 30 13 2 3, ''y'', 200, 5), (R 110 16 4 1, ''x'', 300, 4),
        (R 160 5 2 1, ''y'', 150, 6), (R 10 6 2 1, ''y'', 40, 3)],
      bp_triggers =
       [(R 75 16 5 2, R 78 15 1 1), (R 185 2 5 2, R 190 1 1 1), (R 50 13 3 2, R 53 12 1 1),
        (R 120 10 3 2, R 125 8 1 1)],
      bp_axes =
       [(xy (R 120 20 1 1), 250, 360, 2.5), (xy (R 150 18 1 1), 220, 360, 3),
        (xy (R 40 20 1 1), 180, 180, 2), (xy (R 180 15 1 1), 140, 90, 5)],
      bp_chasers =
       [(xy (R 60 20 1 1), 320, 6), (xy (R 180 5 1 1), 400, 4), (xy (R 10 10 1 1), 350, 8),
        (xy (R 120 15 1 1), 380, 5)],
      bp_disappear =
       [(R 50 13 2 2, R 50 12 6 1), (R 125 9 2 2, R 125 8 10 1), (R 175 2 2 2, R 175 1 10 1),
        (R 35 10 2 2, R 35 8 6 1)],
      bp_crushers =
       [(R 40 22 2 2, 700), (R 90 22 2 2, 750), (R 160 22 2 2, 700), (R 190 20 2 2, 600),
        (R 20 22 2 2, 500)]\<rparr>"

definition LEVEL_BLUEPRINTS :: "blueprint list" where
  "LEVEL_BLUEPRINTS =
     [level_1, level_2, level_3, level_4, level_5, level_6, level_7, level_8, level_9, level_10, level_11, level_12, level_13]"

datatype py_error = ZeroDivisionError | IndexError | ValueError

record level_manager =
  current_level_index :: int
  level_id :: int
  platforms :: "rect list"
  static_traps :: "rect list"
  goal_rect :: "rect option"
  spawn_point :: "real \<times> real"
  current_attempts :: int
  level_length :: int
  oscillators :: "oscillating_hazard list"
  trigger_spikes :: "trigger_spike list"
  swing_axes :: "swinging_axe list"
  chasers :: "chasing_hazard list"
  disappearing_platforms :: "disappearing_platform list"
  crushing_hazards :: "crushing_hazard list"

definition py_index :: "'a list \<Rightarrow> int \<Rightarrow> py_error + 'a" where
  \<comment> \<open>\<open>xs[i]\<close>: a negative index counts from the end, anything else out of range raises.\<close>
  "py_index xs i =
     (let j = (if i < 0 then i + int (length xs) else i)
      in if j < 0 \<or> int (length xs) \<le> j then Inl IndexError else Inr (xs ! nat j))"

definition py_mod :: "int \<Rightarrow> int \<Rightarrow> py_error + int" where
  \<comment> \<open>\<open>a % b\<close> on ints: the result has the sign of \<open>b\<close>; a zero divisor raises.\<close>
  "py_mod a b = (if b = 0 then Inl ZeroDivisionError else Inr (a mod b))"

definition LevelManager :: "int \<Rightarrow> level_manager" where
  "LevelManager lid =
     (let idx = max 0 (lid - 1) mod int (length LEVEL_BLUEPRINTS)
      in \<lparr>current_level_index = idx, level_id = bp_id (LEVEL_BLUEPRINTS ! nat idx),
          platforms = [], static_traps = [], goal_rect = None, spawn_point = (0, 0),
          current_attempts = 0, level_length = LEVEL_LENGTH, oscillators = [],
          trigger_spikes = [], swing_axes = [], chasers = [], disappearing_platforms = [],
          crushing_hazards = []\<rparr>)"

fun add_disappearing ::
  "(rtuple \<times> rtuple) list \<Rightarrow> rect list \<Rightarrow> disappearing_platform list
     \<Rightarrow> rect list \<times> disappearing_platform list" where
  \<comment> \<open>The loop over \<open>blueprint["disappear"]\<close>: a target that is not yet a platform (compared
      by value) is appended to the platforms.\<close>
  "add_disappearing [] plats dps = (plats, dps)"
| "add_disappearing (entry # rest) plats dps =
     (let target_rect = Rect_of (snd entry)
      in add_disappearing rest
           (if target_rect \<in> set plats then plats else plats @ [target_rect])
           (dps @ [DisappearingPlatform (fst entry) target_rect]))"

definition randint_raises :: "int \<Rightarrow> int \<Rightarrow> bool" where
  \<comment> \<open>\<open>random.randint(a, b)\<close> raises ValueError on an empty range.\<close>
  "randint_raises a b = (b < a)"

definition decoration_raises :: "rect \<Rightarrow> bool" where
  \<comment> \<open>The decoration pass draws \<open>width // 60\<close> times from \<open>randint(0, width - 10)\<close>.
      The decorations themselves are random and cosmetic and are not kept in the model.\<close>
  "decoration_raises plat_rect = (0 < rect_w plat_rect div 60 \<and> randint_raises 0 (rect_w plat_rect - 10))"

definition load_level_from ::
  "blueprint list \<Rightarrow> int option \<Rightarrow> level_manager \<Rightarrow> py_error + level_manager" where
  \<comment> \<open>\<open>load_level\<close> with the blueprint table as a parameter.\<close>
  "load_level_from table index lm =
     (case (case index of None \<Rightarrow> Inr (current_level_index lm)
                        | Some i \<Rightarrow> py_mod i (int (length table))) of
        Inl e \<Rightarrow> Inl e
      | Inr idx \<Rightarrow>
          (case py_index table idx of
             Inl e \<Rightarrow> Inl e
           | Inr b \<Rightarrow>
               (let goal = Rect_of (bp_goal b);
                    pd = add_disappearing (bp_disappear b) (map Rect_of (bp_platforms b)) []
                in if list_ex decoration_raises (map Rect_of (bp_platforms b)) then Inl ValueError
                   else Inr (lm\<lparr>current_level_index := idx,
                       level_id := bp_id b,
                       spawn_point := (real_of_int (fst (bp_spawn b)), real_of_int (snd (bp_spawn b))),
                       platforms := fst pd,
                       static_traps := map Rect_of (bp_static_traps b),
                       goal_rect := Some goal,
                       level_length := max (rect_right goal + TILE) LEVEL_LENGTH,
                       disappearing_platforms := snd pd,
                       oscillators :=
                         map (\<lambda>(r, axis, amplitude, speed). OscillatingHazard r axis amplitude speed)
                           (bp_oscillators b),
                       trigger_spikes :=
                         map (\<lambda>(trigger, spike). TriggerSpike trigger spike 40 140) (bp_triggers b),
                       swing_axes :=
                         map (\<lambda>(pivot, len, swing_degrees, speed).
                                SwingingAxe pivot len (30, 60) swing_degrees speed) (bp_axes b),
                       chasers :=
                         map (\<lambda>(spawn, speed, max_time). ChasingHazard spawn speed max_time)
                           (bp_chasers b),
                       crushing_hazards :=
                         map (\<lambda>(r, slam_height). CrushingHazard r slam_height 600 100)
                           (bp_crushers b)\<rparr>))))"

definition load_level :: "int option \<Rightarrow> level_manager \<Rightarrow> py_error + level_manager" where
  "load_level index lm = load_level_from LEVEL_BLUEPRINTS index lm"

fun update_disappearing ::
  "real \<Rightarrow> rect option \<Rightarrow> disappearing_platform list \<Rightarrow> rect list
     \<Rightarrow> disappearing_platform list \<times> rect list" where
  \<comment> \<open>The last loop of \<open>update_hazards\<close>; \<open>list.remove\<close> drops the first equal element.\<close>
  "update_disappearing dt pr [] plats = ([], plats)"
| "update_disappearing dt pr (d # ds) plats =
     (let d1 = dp_update dt pr d;
          plats1 = (if dp_is_removed d1 \<and> dp_target_platform_rect d1 \<in> set plats
                    then remove1 (dp_target_platform_rect d1) plats else plats);
          rest = update_disappearing dt pr ds plats1
      in (d1 # fst rest, snd rest))"

definition update_hazards :: "real \<Rightarrow> rect \<Rightarrow> level_manager \<Rightarrow> level_manager" where
  "update_hazards dt player_rect lm =
     (let dd = update_disappearing dt (Some player_rect) (disappearing_platforms lm) (platforms lm)
      in lm\<lparr>oscillators := map (osc_update dt (Some player_rect)) (oscillators lm),
            trigger_spikes := map (ts_update dt (Some player_rect)) (trigger_spikes lm),
            swing_axes := map (axe_update dt (Some player_rect)) (swing_axes lm),
            chasers := map (ch_update dt (Some player_rect)) (chasers lm),
            crushing_hazards := map (cr_update dt (Some player_rect)) (crushing_hazards lm),
            disappearing_platforms := fst dd,
            platforms := snd dd\<rparr>)"

fun hazards_run :: "level_manager \<Rightarrow> (real \<times> rect) list \<Rightarrow> level_manager" where
  \<comment> \<open>A sequence of \<open>update_hazards(dt, player_rect)\<close> calls with no load in between.\<close>
  "hazards_run lm [] = lm"
| "hazards_run lm (c # cs) = hazards_run (update_hazards (fst c) (snd c) lm) cs"

definition check_hazard_collision :: "level_manager \<Rightarrow> rect \<Rightarrow> bool" where
  "check_hazard_collision lm r =
     (list_ex (\<lambda>trap. colliderect trap r) (static_traps lm)
      \<or> list_ex (\<lambda>h. osc_collides h r) (oscillators lm)
      \<or> list_ex (\<lambda>h. ts_collides h r) (trigger_spikes lm)
      \<or> list_ex (\<lambda>h. axe_collides h r) (swing_axes lm)
      \<or> list_ex (\<lambda>h. ch_collides h r) (chasers lm)
      \<or> list_ex (\<lambda>h. cr_collides h r) (crushing_hazards lm))"

definition reset_attempts :: "level_manager \<Rightarrow> level_manager" where
  "reset_attempts lm = lm\<lparr>current_attempts := 0\<rparr>"

definition increment_attempts :: "level_manager \<Rightarrow> level_manager" where
  "increment_attempts lm = lm\<lparr>current_attempts := current_attempts lm + 1\<rparr>"

definition calculate_star_rating :: "level_manager \<Rightarrow> int" where
  "calculate_star_rating lm =
     (if current_attempts lm \<le> 3 then 3
      else if current_attempts lm \<le> 5 then 2
      else 1)"

section \<open>main.py: Player\<close>

text \<open>
  The fields that only drive the drawing (sprite, squash and stretch, breathing and walking
  timers) are left out.
\<close>

record player =
  p_spawn_point :: "real \<times> real"
  p_rect :: rect
  p_vel_x :: real
  p_vel_y :: real
  p_on_ground :: bool
  p_coyote_timer :: real
  p_jump_buffer_timer :: real
  p_facing_right :: bool
  p_jumps_left :: int

definition Player :: "real \<times> real \<Rightarrow> player" where
  "Player spawn =
     \<lparr>p_spawn_point = spawn,
      p_rect = Rect (py_int (fst spawn)) (py_int (snd spawn)) TILE_SIZE (py_int (real_of_int TILE_SIZE * 1.5)),
      p_vel_x = 0, p_vel_y = 0, p_on_ground = False, p_coyote_timer = 0,
      p_jump_buffer_timer = 0, p_facing_right = True, p_jumps_left = 2\<rparr>"

definition p_reset :: "player \<Rightarrow> player" where
  "p_reset p =
     p\<lparr>p_rect := set_topleft (p_rect p) (py_int (fst (p_spawn_point p)), py_int (snd (p_spawn_point p))),
       p_vel_x := 0, p_vel_y := 0, p_on_ground := False, p_coyote_timer := 0,
       p_jump_buffer_timer := 0, p_jumps_left := 2\<rparr>"

definition set_spawn :: "real \<times> real \<Rightarrow> player \<Rightarrow> player" where
  "set_spawn spawn p = p_reset (p\<lparr>p_spawn_point := spawn\<rparr>)"

record keys =
  K_a :: bool
  K_LEFT :: bool
  K_d :: bool
  K_RIGHT :: bool

definition handle_input :: "keys \<Rightarrow> player \<Rightarrow> player" where
  "handle_input ks p =
     (let p1 = p\<lparr>p_vel_x := 0\<rparr>;
          p2 = (if K_a ks \<or> K_LEFT ks then p1\<lparr>p_vel_x := - PLAYER_SPEED, p_facing_right := False\<rparr> else p1)
      in if K_d ks \<or> K_RIGHT ks then p2\<lparr>p_vel_x := PLAYER_SPEED, p_facing_right := True\<rparr> else p2)"

definition jump :: "player \<Rightarrow> player" where
  "jump p = p\<lparr>p_jump_buffer_timer := JUMP_BUFFER_TIME\<rparr>"

definition resolve_one :: "string \<Rightarrow> player \<Rightarrow> rect \<Rightarrow> player" where
  \<comment> \<open>The body of the loop of \<open>_resolve_collisions\<close> for one platform.\<close>
  "resolve_one axis p plat =
     (if colliderect (p_rect p) plat then
        (if axis = ''x'' then
           (if p_vel_x p > 0 then p\<lparr>p_rect := set_right (p_rect p) (rect_left plat), p_vel_x := 0\<rparr>
            else if p_vel_x p < 0 then p\<lparr>p_rect := set_left (p_rect p) (rect_right plat), p_vel_x := 0\<rparr>
            else p\<lparr>p_vel_x := 0\<rparr>)
         else
           (if p_vel_y p > 0
            then p\<lparr>p_rect := set_bottom (p_rect p) (rect_top plat), p_vel_y := 0, p_on_ground := True\<rparr>
            else if p_vel_y p < 0
            then p\<lparr>p_rect := set_top (p_rect p) (rect_bottom plat), p_vel_y := 0\<rparr>
            else p))
      else p)"

definition resolve_collisions :: "string \<Rightarrow> rect list \<Rightarrow> player \<Rightarrow> player" where
  "resolve_collisions axis plats p = foldl (resolve_one axis) p plats"

definition consume_buffered_jump :: "player \<Rightarrow> player \<times> bool" where
  "consume_buffered_jump p =
     (let can_jump = (p_on_ground p \<or> p_coyote_timer p > 0)
      in if p_jump_buffer_timer p > 0 then
           (if can_jump
            then (p\<lparr>p_vel_y := JUMP_FORCE, p_on_ground := False, p_jump_buffer_timer := 0,
                    p_coyote_timer := 0, p_jumps_left := 1\<rparr>, True)
            else if p_jumps_left p > 0
            then (p\<lparr>p_vel_y := JUMP_FORCE * 0.85, p_jump_buffer_timer := 0,
                    p_jumps_left := p_jumps_left p - 1\<rparr>, True)
            else (p, False))
         else (p, False))"

definition apply_gravity :: "real \<Rightarrow> real" where
  \<comment> \<open>The two gravity lines of \<open>update\<close>, on the vertical velocity.\<close>
  "apply_gravity vy = min (vy + GRAVITY) MAX_FALL_SPEED"

definition move_x :: "rect list \<Rightarrow> int \<Rightarrow> player \<Rightarrow> player" where
  \<comment> \<open>The horizontal pass of \<open>update\<close>: move, resolve, clamp.\<close>
  "move_x plats lvl_length p =
     (let p1 = p\<lparr>p_rect := set_x (p_rect p) (rect_x (p_rect p) + py_int (p_vel_x p))\<rparr>;
          p2 = resolve_collisions ''x'' plats p1
      in p2\<lparr>p_rect := set_x (p_rect p2)
                (max 0 (min (rect_x (p_rect p2)) (lvl_length - rect_w (p_rect p2))))\<rparr>)"

definition move_y :: "rect list \<Rightarrow> player \<Rightarrow> player" where
  \<comment> \<open>The vertical pass of \<open>update\<close>.\<close>
  "move_y plats p =
     resolve_collisions ''y'' plats
       (p\<lparr>p_rect := set_y (p_rect p) (rect_y (p_rect p) + py_int (p_vel_y p)), p_on_ground := False\<rparr>)"

definition before_jump :: "real \<Rightarrow> rect list \<Rightarrow> int \<Rightarrow> player \<Rightarrow> player" where
  \<comment> \<open>\<open>update\<close> up to its last line, the call of \<open>_consume_buffered_jump\<close>.\<close>
  "before_jump dt plats lvl_length p =
     (let was_on_ground = p_on_ground p;
          p1 = p\<lparr>p_jump_buffer_timer := max 0 (p_jump_buffer_timer p - dt),
                 p_coyote_timer := max 0 (p_coyote_timer p - dt)\<rparr>;
          p2 = p1\<lparr>p_vel_y := apply_gravity (p_vel_y p1)\<rparr>;
          p3 = move_x plats lvl_length p2;
          p4 = move_y plats p3
      in if p_on_ground p4 then p4\<lparr>p_jumps_left := 2, p_coyote_timer := COYOTE_TIME\<rparr>
         else if was_on_ground then p4\<lparr>p_coyote_timer := COYOTE_TIME\<rparr>
         else p4)"

definition p_update :: "real \<Rightarrow> rect list \<Rightarrow> int \<Rightarrow> player \<Rightarrow> player \<times> bool" where
  "p_update dt plats lvl_length p = consume_buffered_jump (before_jump dt plats lvl_length p)"

datatype player_call = Handle_input keys | Jump | Update real "rect list"

fun do_call :: "int \<Rightarrow> player \<Rightarrow> player_call \<Rightarrow> player" where
  \<comment> \<open>One call on the player from the game loop, at a fixed level length.\<close>
  "do_call lvl_length p (Handle_input ks) = handle_input ks p"
| "do_call lvl_length p Jump = jump p"
| "do_call lvl_length p (Update dt plats) = fst (p_update dt plats lvl_length p)"

fun free_fall :: "nat \<Rightarrow> real \<Rightarrow> real" where
  \<comment> \<open>The vertical velocity after the gravity step of \<open>n\<close> consecutive frames in which
      nothing else writes it (no landing, no ceiling, no jump).\<close>
  "free_fall 0 vy = vy"
| "free_fall (Suc n) vy = apply_gravity (free_fall n vy)"

section \<open>main.py: Game\<close>

text \<open>
  Of the game object, the model keeps what the playing update reads and writes. The
  persistence collaborator, the narrator and the sound are kept as logs of the calls
  made to them; the particles, which are random and cosmetic, are left out.
\<close>

datatype game_state = LOGIN | SIGNUP | MAP_MENU | PLAYING | DIALOGUE | DEATH_MENU | VICTORY

record game =
  g_state :: game_state
  g_delta :: real
  g_player :: player
  g_level_manager :: level_manager
  g_camera_x :: real
  g_screen_width :: int
  g_current_user :: "int option"
  g_jump_sounds :: nat
  g_death_log :: "(int \<times> int \<times> int) list"
  g_dialogue_log :: "int list"
  g_attempt_log :: "(int \<times> int \<times> int \<times> int) list"
  g_last_victory_stars :: int

definition handle_death :: "int \<times> int \<Rightarrow> game \<Rightarrow> game" where
  "handle_death reason_position g =
     (let lm = increment_attempts (g_level_manager g);
          g1 = g\<lparr>g_level_manager := lm,
                 g_death_log := g_death_log g @ [(level_id lm, fst reason_position, snd reason_position)]\<rparr>
      in if current_attempts lm > 20
         then g1\<lparr>g_state := DEATH_MENU, g_dialogue_log := g_dialogue_log g1 @ [12]\<rparr>
         else g1\<lparr>g_dialogue_log := g_dialogue_log g1 @ [current_attempts lm], g_state := DIALOGUE\<rparr>)"

definition handle_victory :: "game \<Rightarrow> game" where
  "handle_victory g =
     (let stars = calculate_star_rating (g_level_manager g);
          g1 = (case g_current_user g of
                  None \<Rightarrow> g
                | Some uid \<Rightarrow>
                    g\<lparr>g_attempt_log := g_attempt_log g @
                        [(uid, level_id (g_level_manager g), current_attempts (g_level_manager g), stars)]\<rparr>)
      in g1\<lparr>g_last_victory_stars := stars, g_state := VICTORY\<rparr>)"

definition update_camera :: "game \<Rightarrow> game" where
  "update_camera g =
     (let target = real_of_int (rect_centerx (p_rect (g_player g))) - real_of_int (g_screen_width g) * 0.35;
          max_scroll = max 0 (level_length (g_level_manager g) - g_screen_width g);
          cam = g_camera_x g + (target - g_camera_x g) * 0.12
      in g\<lparr>g_camera_x := max 0 (min cam (real_of_int max_scroll))\<rparr>)"

definition physics_and_hazards :: "keys \<Rightarrow> game \<Rightarrow> game" where
  \<comment> \<open>\<open>_update_play\<close> up to the death check: input, player update, hazard update.\<close>
  "physics_and_hazards ks g =
     (let pu = p_update (g_delta g) (platforms (g_level_manager g)) (level_length (g_level_manager g))
                 (handle_input ks (g_player g));
          g1 = g\<lparr>g_player := fst pu,
                 g_jump_sounds := (if snd pu then Suc (g_jump_sounds g) else g_jump_sounds g)\<rparr>
      in g1\<lparr>g_level_manager := update_hazards (g_delta g) (p_rect (fst pu)) (g_level_manager g1)\<rparr>)"

definition death_check :: "game \<Rightarrow> bool" where
  "death_check g =
     (rect_top (p_rect (g_player g)) > SCREEN_HEIGHT + 200
      \<or> check_hazard_collision (g_level_manager g) (p_rect (g_player g)))"

definition goal_check :: "game \<Rightarrow> bool" where
  "goal_check g =
     (case goal_rect (g_level_manager g) of
        None \<Rightarrow> False
      | Some goal \<Rightarrow> rect_truthy goal \<and> colliderect (p_rect (g_player g)) (inflate goal 25 25))"

definition update_play :: "keys \<Rightarrow> game \<Rightarrow> game" where
  "update_play ks g =
     (let g1 = physics_and_hazards ks g
      in if death_check g1
         then handle_death (rect_centerx (p_rect (g_player g1)), rect_centery (p_rect (g_player g1))) g1
         else if goal_check g1 then handle_victory g1
         else update_camera g1)"

section \<open>Sample states\<close>

definition airborne :: player where
  \<comment> \<open>A player in the air with a jump buffered and no air jump left.\<close>
  "airborne =
     \<lparr>p_spawn_point = (80, 580), p_rect = Rect 80 300 40 60, p_vel_x = 0, p_vel_y = 3,
      p_on_ground = False, p_coyote_timer = 0, p_jump_buffer_timer = 0.1,
      p_facing_right = True, p_jumps_left = 0\<rparr>"



definition runner :: player where
  \<comment> \<open>A player 50 pixels from the end of a level of length 3840, moving right at 30 per frame.\<close>
  "runner = (Player (3790, 580))\<lparr>p_vel_x := 30\<rparr>"

definition far_spawn_level :: blueprint where
  \<comment> \<open>Level 1 with its spawn point moved far beyond the level length.\<close>
  "far_spawn_level = level_1\<lparr>bp_spawn := (100000, 580)\<rparr>"

definition far_goal_level :: blueprint where
  \<comment> \<open>Level 1 with its goal moved far beyond the default level length.\<close>
  "far_goal_level = level_1\<lparr>bp_goal := (100000, 540, 80, 120)\<rparr>"

definition level1_loaded :: level_manager where
  \<comment> \<open>The level manager after \<open>load_level(index=0)\<close>.\<close>
  "level1_loaded = projr (load_level (Some 0) (LevelManager 1))"

definition no_keys :: keys where
  "no_keys = \<lparr>K_a = False, K_LEFT = False, K_d = False, K_RIGHT = False\<rparr>"

definition trap_on_goal :: level_manager where
  \<comment> \<open>A level whose only content is a static trap lying over the goal.\<close>
  "trap_on_goal =
     (LevelManager 1)\<lparr>static_traps := [Rect 90 90 100 100], goal_rect := Some (Rect 100 100 40 40)\<rparr>"

definition doomed :: game where
  \<comment> \<open>A game in play whose player stands on both the trap and the goal.\<close>
  "doomed =
     \<lparr>g_state = PLAYING, g_delta = 0.016, g_player = Player (100, 100),
      g_level_manager = trap_on_goal, g_camera_x = 0, g_screen_width = 960,
      g_current_user = Some 1, g_jump_sounds = 0, g_death_log = [], g_dialogue_log = [],
      g_attempt_log = [], g_last_victory_stars = 0\<rparr>"

section \<open>Star rating\<close>

text \<open>
  Claim C1. The star rating is a function of the attempt counter alone: it is 3 exactly
  when the counter is at most 3, 2 exactly when the counter is 4 or 5, 1 exactly when the
  counter is at least 6, and it is always one of 1, 2, 3.
\<close>

theorem calculate_star_rating_spec:
  "(calculate_star_rating lm = 3) = (current_attempts lm \<le> 3)
   \<and> (calculate_star_rating lm = 2) = (4 \<le> current_attempts lm \<and> current_attempts lm \<le> 5)
   \<and> (calculate_star_rating lm = 1) = (6 \<le> current_attempts lm)
   \<and> calculate_star_rating lm \<in> {1, 2, 3}
   \<and> calculate_star_rating (lm\<lparr>current_attempts := a\<rparr>)
       = (if a \<le> 3 then 3 else if a \<le> 5 then 2 else 1)"
  by (auto simp: calculate_star_rating_def)

theorem calculate_star_rating_spec_witness:
  "calculate_star_rating ((LevelManager 1)\<lparr>current_attempts := 3\<rparr>) = 3
   \<and> calculate_star_rating ((LevelManager 1)\<lparr>current_attempts := 4\<rparr>) = 2
   \<and> calculate_star_rating ((LevelManager 1)\<lparr>current_attempts := 6\<rparr>) = 1"
  using calculate_star_rating_spec [of "(LevelManager 1)\<lparr>current_attempts := 3\<rparr>" 3]
        calculate_star_rating_spec [of "(LevelManager 1)\<lparr>current_attempts := 4\<rparr>" 4]
        calculate_star_rating_spec [of "(LevelManager 1)\<lparr>current_attempts := 6\<rparr>" 6]
  by simp

section \<open>Buffered jump\<close>

text \<open>
  Claim C4. \<open>update\<close> ends with the buffered-jump resolution, and on every player state
  \<open>q\<close> that resolution does the following. With the buffer timer positive and the player
  grounded or the coyote timer positive: the vertical velocity becomes the jump force, the
  grounded flag and both timers are cleared, one air jump remains, and a jump is signalled.
  Otherwise, with the buffer timer positive and an air jump left: the vertical velocity
  becomes 85% of the jump force, the buffer is cleared, one air jump is consumed, and a jump
  is signalled. Otherwise the state is returned unchanged and no jump is signalled.
\<close>

theorem buffered_jump_rule:
  "p_update dt plats lvl_length p0 = consume_buffered_jump (before_jump dt plats lvl_length p0)
   \<and> (p_jump_buffer_timer q > 0 \<and> (p_on_ground q \<or> p_coyote_timer q > 0) \<longrightarrow>
        consume_buffered_jump q =
          (q\<lparr>p_vel_y := JUMP_FORCE, p_on_ground := False, p_jump_buffer_timer := 0,
             p_coyote_timer := 0, p_jumps_left := 1\<rparr>, True))
   \<and> (\<not> (p_jump_buffer_timer q > 0 \<and> (p_on_ground q \<or> p_coyote_timer q > 0))
        \<and> p_jump_buffer_timer q > 0 \<and> p_jumps_left q > 0 \<longrightarrow>
        consume_buffered_jump q =
          (q\<lparr>p_vel_y := 0.85 * JUMP_FORCE, p_jump_buffer_timer := 0,
             p_jumps_left := p_jumps_left q - 1\<rparr>, True))
   \<and> (\<not> (p_jump_buffer_timer q > 0 \<and> (p_on_ground q \<or> p_coyote_timer q > 0))
        \<and> \<not> (p_jump_buffer_timer q > 0 \<and> p_jumps_left q > 0) \<longrightarrow>
        consume_buffered_jump q = (q, False))"
  by (simp add: p_update_def consume_buffered_jump_def Let_def)

theorem buffered_jump_rule_witness:
  "consume_buffered_jump (airborne\<lparr>p_on_ground := True\<rparr>)
     = (airborne\<lparr>p_vel_y := - 22, p_on_ground := False, p_jump_buffer_timer := 0,
                 p_coyote_timer := 0, p_jumps_left := 1\<rparr>, True)
   \<and> consume_buffered_jump (airborne\<lparr>p_jumps_left := 1\<rparr>)
     = (airborne\<lparr>p_vel_y := - 18.7, p_jump_buffer_timer := 0, p_jumps_left := 0\<rparr>, True)
   \<and> consume_buffered_jump airborne = (airborne, False)"
  using buffered_jump_rule [of 0 "[]" 0 airborne "airborne\<lparr>p_on_ground := True\<rparr>"]
        buffered_jump_rule [of 0 "[]" 0 airborne "airborne\<lparr>p_jumps_left := 1\<rparr>"]
        buffered_jump_rule [of 0 "[]" 0 airborne airborne]
  by (simp add: airborne_def JUMP_FORCE_def)

section \<open>Gravity and the fall-speed cap\<close>

lemma gravity_min: "apply_gravity (min a MAX_FALL_SPEED) = min (a + GRAVITY) MAX_FALL_SPEED"
  unfolding apply_gravity_def GRAVITY_def MAX_FALL_SPEED_def min_def by auto

lemma free_fall_closed:
  "free_fall (Suc n) vy = min (vy + real (Suc n) * GRAVITY) MAX_FALL_SPEED"
proof (induction n)
  case 0
  show ?case by (simp add: apply_gravity_def)
next
  case (Suc n)
  have "free_fall (Suc (Suc n)) vy = apply_gravity (free_fall (Suc n) vy)" by simp
  also have "\<dots> = min (vy + real (Suc n) * GRAVITY + GRAVITY) MAX_FALL_SPEED"
    by (simp only: Suc.IH gravity_min)
  also have "vy + real (Suc n) * GRAVITY + GRAVITY = vy + real (Suc (Suc n)) * GRAVITY"
    by (simp add: algebra_simps)
  finally show ?case .
qed

text \<open>
  Claim C7. With gravity 0.8 per frame and the cap 14, the vertical velocity after the
  gravity step is never above 14, and from any starting velocity \<open>vy\<close> it is exactly 14
  after the gravity step of every frame from frame \<open>\<lceil>(14 - vy) / 0.8\<rceil>\<close> on (and from the
  first frame on when that number is not positive). Velocities are exact reals here.
\<close>

theorem fall_speed_plateau:
  "(0 < n \<longrightarrow> free_fall n vy \<le> 14)
   \<and> (0 < n \<and> nat \<lceil>(14 - vy) / 0.8\<rceil> \<le> n \<longrightarrow> free_fall n vy = 14)
   \<and> apply_gravity vy \<le> 14"
proof (intro conjI impI)
  assume "0 < n"
  then obtain m where n: "n = Suc m" by (cases n) auto
  show "free_fall n vy \<le> 14" unfolding n free_fall_closed by (simp add: MAX_FALL_SPEED_def)
next
  assume a: "0 < n \<and> nat \<lceil>(14 - vy) / 0.8\<rceil> \<le> n"
  then obtain m where n: "n = Suc m" by (cases n) auto
  from a have "\<lceil>(14 - vy) / 0.8\<rceil> \<le> int n" by linarith
  then have "(14 - vy) / 0.8 \<le> real n" by (simp add: ceiling_le_iff)
  then have "14 - vy \<le> real n * 0.8" by (simp add: field_simps)
  then have "14 \<le> vy + real n * GRAVITY" unfolding GRAVITY_def by linarith
  then show "free_fall n vy = 14" unfolding n free_fall_closed by (simp add: MAX_FALL_SPEED_def)
next
  show "apply_gravity vy \<le> 14" by (simp add: apply_gravity_def MAX_FALL_SPEED_def)
qed

theorem fall_speed_plateau_witness:
  "(0::nat) < 45 \<and> nat \<lceil>(14 - (- 22 :: real)) / 0.8\<rceil> \<le> 45
   \<and> free_fall 45 (- 22) = 14 \<and> free_fall 46 (- 22) = 14 \<and> free_fall 44 (- 22) \<le> 14"
  using fall_speed_plateau [of 45 "- 22"] fall_speed_plateau [of 46 "- 22"]
        fall_speed_plateau [of 44 "- 22"]
  by simp

section \<open>Oscillating hazard\<close>

lemma osc_update_frame:
  "osc_base_rect (osc_update dt pr h) = osc_base_rect h
   \<and> osc_axis (osc_update dt pr h) = osc_axis h
   \<and> rect_w (osc_rect (osc_update dt pr h)) = rect_w (osc_rect h)
   \<and> rect_h (osc_rect (osc_update dt pr h)) = rect_h (osc_rect h)
   \<and> (osc_axis h = ''x'' \<longrightarrow> rect_y (osc_rect (osc_update dt pr h)) = rect_y (osc_rect h))
   \<and> (osc_axis h \<noteq> ''x'' \<longrightarrow> rect_x (osc_rect (osc_update dt pr h)) = rect_x (osc_rect h))"
  by (simp add: osc_update_def Let_def set_x_def set_y_def)

lemma osc_run_frame:
  "osc_base_rect (osc_run h cs) = osc_base_rect h
   \<and> osc_axis (osc_run h cs) = osc_axis h
   \<and> rect_w (osc_rect (osc_run h cs)) = rect_w (osc_rect h)
   \<and> rect_h (osc_rect (osc_run h cs)) = rect_h (osc_rect h)
   \<and> (osc_axis h = ''x'' \<longrightarrow> rect_y (osc_rect (osc_run h cs)) = rect_y (osc_rect h))
   \<and> (osc_axis h \<noteq> ''x'' \<longrightarrow> rect_x (osc_rect (osc_run h cs)) = rect_x (osc_rect h))"
proof (induction cs arbitrary: h)
  case Nil
  show ?case by simp
next
  case (Cons c cs)
  show ?case
    using Cons.IH [of "osc_update (fst c) (snd c) h"] osc_update_frame [of "fst c" "snd c" h]
    by simp
qed

text \<open>
  Claim C10. Take an oscillating hazard as its constructor builds it and any sequence of
  update calls, with any time steps and player rectangles. Its base rectangle stays the
  constructor's rectangle, and the current rectangle keeps the base width and height; with
  axis \<open>"x"\<close> it also keeps the base y coordinate, and with any other axis it keeps the base
  x coordinate.
\<close>

theorem oscillating_only_axis_moves:
  "rect_w (osc_rect (osc_run (OscillatingHazard rt axis amplitude speed) calls))
     = rect_w (osc_base_rect (osc_run (OscillatingHazard rt axis amplitude speed) calls))
   \<and> rect_h (osc_rect (osc_run (OscillatingHazard rt axis amplitude speed) calls))
     = rect_h (osc_base_rect (osc_run (OscillatingHazard rt axis amplitude speed) calls))
   \<and> (axis = ''x'' \<longrightarrow>
        rect_y (osc_rect (osc_run (OscillatingHazard rt axis amplitude speed) calls))
          = rect_y (osc_base_rect (osc_run (OscillatingHazard rt axis amplitude speed) calls)))
   \<and> (axis \<noteq> ''x'' \<longrightarrow>
        rect_x (osc_rect (osc_run (OscillatingHazard rt axis amplitude speed) calls))
          = rect_x (osc_base_rect (osc_run (OscillatingHazard rt axis amplitude speed) calls)))
   \<and> osc_base_rect (osc_run (OscillatingHazard rt axis amplitude speed) calls) = Rect_of rt"
proof -
  define h0 where "h0 = OscillatingHazard rt axis amplitude speed"
  have init: "osc_base_rect h0 = Rect_of rt" "osc_rect h0 = Rect_of rt" "osc_axis h0 = axis"
    by (simp_all add: h0_def OscillatingHazard_def)
  have "rect_w (osc_rect (osc_run h0 calls)) = rect_w (osc_base_rect (osc_run h0 calls))
     \<and> rect_h (osc_rect (osc_run h0 calls)) = rect_h (osc_base_rect (osc_run h0 calls))
     \<and> (axis = ''x'' \<longrightarrow>
          rect_y (osc_rect (osc_run h0 calls)) = rect_y (osc_base_rect (osc_run h0 calls)))
     \<and> (axis \<noteq> ''x'' \<longrightarrow>
          rect_x (osc_rect (osc_run h0 calls)) = rect_x (osc_base_rect (osc_run h0 calls)))
     \<and> osc_base_rect (osc_run h0 calls) = Rect_of rt"
    using osc_run_frame [of h0 calls] by (simp add: init)
  then show ?thesis unfolding h0_def .
qed

theorem oscillating_only_axis_moves_witness:
  "rect_y (osc_rect (osc_run (OscillatingHazard (100, 100, 50, 50) ''x'' 100 1)
      [(0.5, Some (Rect 0 0 10 10)), (- 2, None)])) = 100
   \<and> rect_x (osc_rect (osc_run (OscillatingHazard (100, 100, 50, 50) ''y'' 100 1)
      [(0.5, Some (Rect 0 0 10 10)), (- 2, None)])) = 100
   \<and> rect_x (osc_rect (osc_run (OscillatingHazard (100, 100, 50, 50) ''z'' 100 1)
      [(0.5, Some (Rect 0 0 10 10))])) = 100"
  using oscillating_only_axis_moves [of "(100, 100, 50, 50)" "''x''" 100 1 "[(0.5, Some (Rect 0 0 10 10)), (- 2, None)]"]
        oscillating_only_axis_moves [of "(100, 100, 50, 50)" "''y''" 100 1 "[(0.5, Some (Rect 0 0 10 10)), (- 2, None)]"]
        oscillating_only_axis_moves [of "(100, 100, 50, 50)" "''z''" 100 1 "[(0.5, Some (Rect 0 0 10 10))]"]
  by simp

section \<open>Trigger spike\<close>













section \<open>The player stays inside the level\<close>

lemma resolve_one_width: "rect_w (p_rect (resolve_one axis p plat)) = rect_w (p_rect p)"
  by (simp add: resolve_one_def set_right_def set_left_def set_bottom_def set_top_def
      set_x_def set_y_def)

lemma resolve_one_y_keeps_x: "rect_x (p_rect (resolve_one ''y'' p plat)) = rect_x (p_rect p)"
  by (simp add: resolve_one_def set_bottom_def set_top_def set_y_def)

lemma resolve_collisions_width:
  "rect_w (p_rect (resolve_collisions axis plats p)) = rect_w (p_rect p)"
  unfolding resolve_collisions_def
  by (induction plats arbitrary: p) (simp_all add: resolve_one_width)

lemma resolve_collisions_y_keeps_x:
  "rect_x (p_rect (resolve_collisions ''y'' plats p)) = rect_x (p_rect p)"
  unfolding resolve_collisions_def
  by (induction plats arbitrary: p) (simp_all add: resolve_one_y_keeps_x)

lemma move_x_width: "rect_w (p_rect (move_x plats lvl_length p)) = rect_w (p_rect p)"
  by (simp add: move_x_def Let_def set_x_def resolve_collisions_width)

lemma move_x_clamped:
  assumes "rect_w (p_rect p) \<le> lvl_length"
  shows "0 \<le> rect_x (p_rect (move_x plats lvl_length p))
         \<and> rect_x (p_rect (move_x plats lvl_length p)) \<le> lvl_length - rect_w (p_rect p)"
  using assms by (simp add: move_x_def Let_def set_x_def resolve_collisions_width)

lemma move_y_keeps:
  "rect_x (p_rect (move_y plats p)) = rect_x (p_rect p)
   \<and> rect_w (p_rect (move_y plats p)) = rect_w (p_rect p)"
  by (simp add: move_y_def resolve_collisions_y_keeps_x resolve_collisions_width set_y_def)

lemma before_jump_rect:
  "rect_x (p_rect (before_jump dt plats lvl_length p))
     = rect_x (p_rect (move_x plats lvl_length
         (p\<lparr>p_jump_buffer_timer := max 0 (p_jump_buffer_timer p - dt),
            p_coyote_timer := max 0 (p_coyote_timer p - dt),
            p_vel_y := apply_gravity (p_vel_y p)\<rparr>)))
   \<and> rect_w (p_rect (before_jump dt plats lvl_length p)) = rect_w (p_rect p)"
  by (simp add: before_jump_def Let_def move_y_keeps move_x_width)

lemma consume_keeps_rect: "p_rect (fst (consume_buffered_jump p)) = p_rect p"
  by (simp add: consume_buffered_jump_def Let_def)

lemma p_update_x:
  assumes "rect_w (p_rect p) \<le> lvl_length"
  shows "0 \<le> rect_x (p_rect (fst (p_update dt plats lvl_length p)))
         \<and> rect_x (p_rect (fst (p_update dt plats lvl_length p))) \<le> lvl_length - rect_w (p_rect p)
         \<and> rect_w (p_rect (fst (p_update dt plats lvl_length p))) = rect_w (p_rect p)"
proof -
  let ?p2 = "p\<lparr>p_jump_buffer_timer := max 0 (p_jump_buffer_timer p - dt),
            p_coyote_timer := max 0 (p_coyote_timer p - dt),
            p_vel_y := apply_gravity (p_vel_y p)\<rparr>"
  have "rect_w (p_rect ?p2) \<le> lvl_length" using assms by simp
  from move_x_clamped [OF this, of plats] show ?thesis
    by (simp add: p_update_def consume_keeps_rect before_jump_rect)
qed

lemma do_call_width: "rect_w (p_rect (do_call lvl_length p c)) = rect_w (p_rect p)"
proof (cases c)
  case (Handle_input ks)
  then show ?thesis by (simp add: handle_input_def Let_def)
next
  case Jump
  then show ?thesis by (simp add: jump_def)
next
  case (Update dt plats)
  then show ?thesis
    by (simp add: p_update_def consume_keeps_rect before_jump_rect)
qed

lemma calls_width: "rect_w (p_rect (foldl (do_call lvl_length) p calls)) = rect_w (p_rect p)"
  by (induction calls arbitrary: p) (simp_all add: do_call_width)

text \<open>
  Claim C3. Let the level length be at least the player's width. After any sequence of
  input, jump and update calls, with any time steps and platform lists, the next update
  leaves the player's x position between 0 and the level length minus the width, and
  the width is the same as at the start. No bound on the time step is needed.
\<close>

theorem player_x_within_level:
  assumes "rect_w (p_rect p) \<le> lvl_length"
  shows "0 \<le> rect_x (p_rect (fst (p_update dt plats lvl_length (foldl (do_call lvl_length) p calls))))
         \<and> rect_x (p_rect (fst (p_update dt plats lvl_length (foldl (do_call lvl_length) p calls))))
             \<le> lvl_length - rect_w (p_rect p)
         \<and> rect_w (p_rect (fst (p_update dt plats lvl_length (foldl (do_call lvl_length) p calls))))
             = rect_w (p_rect p)"
  using p_update_x [of "foldl (do_call lvl_length) p calls" lvl_length dt plats] assms
  by (simp add: calls_width)

lemma runner_move_x: "p_rect (move_x [] 3840 runner) = Rect 3800 580 40 60"
  by (simp add: runner_def Player_def move_x_def resolve_collisions_def py_int_def
      TILE_SIZE_def set_x_def Let_def)

lemma runner_update_x: "rect_x (p_rect (fst (p_update 0.016 [] 3840 runner))) = 3800"
  by (simp add: p_update_def consume_buffered_jump_def before_jump_def move_y_def
      resolve_collisions_def set_y_def runner_move_x Let_def move_x_def set_x_def runner_def
      Player_def py_int_def TILE_SIZE_def)

theorem player_x_within_level_witness:
  "rect_w (p_rect runner) \<le> 3840
   \<and> 0 \<le> rect_x (p_rect (fst (p_update 0.016 [] 3840 (foldl (do_call 3840) runner []))))
   \<and> rect_x (p_rect (fst (p_update 0.016 [] 3840 (foldl (do_call 3840) runner [])))) \<le> 3840 - 40
   \<and> rect_x (p_rect (fst (p_update 0.016 [] 3840 (foldl (do_call 3840) runner [])))) = 3800"
  using player_x_within_level [of runner 3840 "0.016" "[]" "[]"] runner_update_x
  by (simp add: runner_def Player_def TILE_SIZE_def)

section \<open>Loading a level\<close>

lemma decoration_never_raises: "\<not> decoration_raises r"
  unfolding decoration_raises_def randint_raises_def
  by presburger

lemma no_decoration_raises: "\<not> list_ex decoration_raises rs"
  by (simp add: list_ex_iff decoration_never_raises)

lemma py_index_in_range:
  "0 \<le> k \<Longrightarrow> k < int (length xs) \<Longrightarrow> py_index xs k = Inr (xs ! nat k)"
  by (simp add: py_index_def Let_def)

lemma load_level_from_Some:
  fixes table :: "blueprint list" and i :: int
  assumes "table \<noteq> []"
  defines "b \<equiv> table ! nat (i mod int (length table))"
  shows "\<exists>lm'. load_level_from table (Some i) lm = Inr lm'
     \<and> current_level_index lm' = i mod int (length table)
     \<and> level_id lm' = bp_id b
     \<and> spawn_point lm' = (real_of_int (fst (bp_spawn b)), real_of_int (snd (bp_spawn b)))
     \<and> goal_rect lm' = Some (Rect_of (bp_goal b))
     \<and> static_traps lm' = map Rect_of (bp_static_traps b)
     \<and> level_length lm' = max (rect_right (Rect_of (bp_goal b)) + TILE) LEVEL_LENGTH
     \<and> current_attempts lm' = current_attempts lm
     \<and> platforms lm' = fst (add_disappearing (bp_disappear b) (map Rect_of (bp_platforms b)) [])
     \<and> disappearing_platforms lm'
         = snd (add_disappearing (bp_disappear b) (map Rect_of (bp_platforms b)) [])"
proof -
  have len: "0 < int (length table)" using assms(1) by simp
  have r: "0 \<le> i mod int (length table)" "i mod int (length table) < int (length table)"
    using len by simp_all
  have idx: "py_index table (i mod int (length table)) = Inr b"
    unfolding b_def by (rule py_index_in_range [OF r])
  have m: "py_mod i (int (length table)) = Inr (i mod int (length table))"
    using len by (simp add: py_mod_def)
  show ?thesis
    by (simp add: load_level_from_def m idx no_decoration_raises Let_def)
qed

lemma blueprint_count: "length LEVEL_BLUEPRINTS = 13"
  by (simp add: LEVEL_BLUEPRINTS_def)

lemma blueprint_ids: "map bp_id LEVEL_BLUEPRINTS = [1, 2, 3, 4, 5, 6, 7, 8, 9, 10, 11, 12, 13]"
  by (simp add: LEVEL_BLUEPRINTS_def level_1_def level_2_def level_3_def level_4_def level_5_def
      level_6_def level_7_def level_8_def level_9_def level_10_def level_11_def level_12_def
      level_13_def)

lemma blueprint_id_at:
  assumes "0 \<le> k" "k < 13"
  shows "bp_id (LEVEL_BLUEPRINTS ! nat k) = k + 1"
proof -
  have "nat k < length LEVEL_BLUEPRINTS" using assms by (simp add: blueprint_count)
  then have "bp_id (LEVEL_BLUEPRINTS ! nat k) = map bp_id LEVEL_BLUEPRINTS ! nat k" by simp
  also have "\<dots> = [1, 2, 3, 4, 5, 6, 7, 8, 9, 10, 11, 12, 13] ! nat k" by (simp only: blueprint_ids)
  also have "\<dots> = k + 1"
  proof -
    from assms have "k = 0 \<or> k = 1 \<or> k = 2 \<or> k = 3 \<or> k = 4 \<or> k = 5 \<or> k = 6
        \<or> k = 7 \<or> k = 8 \<or> k = 9 \<or> k = 10 \<or> k = 11 \<or> k = 12" by arith
    then show ?thesis by (elim disjE) simp_all
  qed
  finally show ?thesis .
qed

text \<open>
  Claim C2. For every integer index, negative or beyond the table included,
  \<open>load_level(index=i)\<close> returns without raising, the table has 13 blueprints, the
  current level index becomes \<open>i mod 13\<close>, which lies in the table, and the level is built
  from the blueprint at that position (its id, which is the position plus one, its spawn
  point, its goal and its static traps).
\<close>

theorem load_level_index_wraps:
  "\<exists>lm'. load_level (Some i) lm = Inr lm'
     \<and> length LEVEL_BLUEPRINTS = 13
     \<and> current_level_index lm' = i mod 13
     \<and> 0 \<le> current_level_index lm' \<and> current_level_index lm' < int (length LEVEL_BLUEPRINTS)
     \<and> py_index LEVEL_BLUEPRINTS (current_level_index lm') = Inr (LEVEL_BLUEPRINTS ! nat (i mod 13))
     \<and> level_id lm' = bp_id (LEVEL_BLUEPRINTS ! nat (i mod 13))
     \<and> level_id lm' = i mod 13 + 1
     \<and> spawn_point lm' = (real_of_int (fst (bp_spawn (LEVEL_BLUEPRINTS ! nat (i mod 13)))),
                          real_of_int (snd (bp_spawn (LEVEL_BLUEPRINTS ! nat (i mod 13)))))
     \<and> goal_rect lm' = Some (Rect_of (bp_goal (LEVEL_BLUEPRINTS ! nat (i mod 13))))
     \<and> static_traps lm' = map Rect_of (bp_static_traps (LEVEL_BLUEPRINTS ! nat (i mod 13)))"
proof -
  have ne: "LEVEL_BLUEPRINTS \<noteq> []" using blueprint_count by auto
  have r: "0 \<le> i mod 13" "i mod 13 < 13" by simp_all
  from load_level_from_Some [OF ne, of i lm]
  obtain lm' where L: "load_level_from LEVEL_BLUEPRINTS (Some i) lm = Inr lm'"
      "current_level_index lm' = i mod 13"
      "level_id lm' = bp_id (LEVEL_BLUEPRINTS ! nat (i mod 13))"
      "spawn_point lm' = (real_of_int (fst (bp_spawn (LEVEL_BLUEPRINTS ! nat (i mod 13)))),
                          real_of_int (snd (bp_spawn (LEVEL_BLUEPRINTS ! nat (i mod 13)))))"
      "goal_rect lm' = Some (Rect_of (bp_goal (LEVEL_BLUEPRINTS ! nat (i mod 13))))"
      "static_traps lm' = map Rect_of (bp_static_traps (LEVEL_BLUEPRINTS ! nat (i mod 13)))"
    by (auto simp: blueprint_count)
  have "py_index LEVEL_BLUEPRINTS (i mod 13) = Inr (LEVEL_BLUEPRINTS ! nat (i mod 13))"
    by (rule py_index_in_range) (simp_all add: blueprint_count)
  with L r blueprint_id_at [OF r] show ?thesis
    by (simp add: load_level_def blueprint_count)
qed

theorem load_level_index_wraps_witness:
  "(\<exists>lm'. load_level (Some (- 1)) (LevelManager 1) = Inr lm' \<and> current_level_index lm' = 12 \<and> level_id lm' = 13)
   \<and> (\<exists>lm'. load_level (Some 13) (LevelManager 1) = Inr lm' \<and> current_level_index lm' = 0 \<and> level_id lm' = 1)"
  using load_level_index_wraps [of "- 1" "LevelManager 1"] load_level_index_wraps [of 13 "LevelManager 1"]
  by auto

section \<open>Blueprints are not validated\<close>

text \<open>
  Claim C8, as the code has it. \<open>load_level\<close> does not validate the geometry of a
  blueprint: on every non-empty table and every index it returns without raising, takes
  the spawn point and the goal from the blueprint as they are, and sets the level length to
  the larger of the default length and the goal's right edge plus one tile.
\<close>

theorem load_level_does_not_validate:
  "table \<noteq> [] \<longrightarrow>
     (\<exists>lm'. load_level_from table (Some i) lm = Inr lm'
        \<and> spawn_point lm' = (real_of_int (fst (bp_spawn (table ! nat (i mod int (length table))))),
                             real_of_int (snd (bp_spawn (table ! nat (i mod int (length table))))))
        \<and> goal_rect lm' = Some (Rect_of (bp_goal (table ! nat (i mod int (length table)))))
        \<and> level_length lm'
            = max (rect_right (Rect_of (bp_goal (table ! nat (i mod int (length table))))) + TILE) LEVEL_LENGTH)"
  using load_level_from_Some [of table i lm] by auto

lemma far_levels:
  "bp_spawn far_spawn_level = (100000, 580) \<and> bp_goal far_spawn_level = R 75 2 2 3
   \<and> bp_goal far_goal_level = (100000, 540, 80, 120)"
  by (simp add: far_spawn_level_def far_goal_level_def level_1_def)

text \<open>
  The claim as stated fails. A blueprint whose spawn point is at x = 100000 loads into a
  level of length 3840, and a blueprint whose goal is at x = 100000 loads with the level
  lengthened to 100120; neither load raises.
\<close>

theorem malformed_blueprint_loads:
  "\<not> isl (load_level_from [far_spawn_level] (Some 0) (LevelManager 1))
   \<and> spawn_point (projr (load_level_from [far_spawn_level] (Some 0) (LevelManager 1))) = (100000, 580)
   \<and> level_length (projr (load_level_from [far_spawn_level] (Some 0) (LevelManager 1))) = 3840
   \<and> \<not> isl (load_level_from [far_goal_level] (Some 0) (LevelManager 1))
   \<and> level_length (projr (load_level_from [far_goal_level] (Some 0) (LevelManager 1))) = 100120"
proof -
  obtain a where a: "load_level_from [far_spawn_level] (Some 0) (LevelManager 1) = Inr a"
      "spawn_point a = (100000, 580)" "level_length a = 3840"
    using load_level_from_Some [of "[far_spawn_level]" 0 "LevelManager 1"]
    by (auto simp: far_levels R_def TILE_def TILE_SIZE_def GROUND_Y_def SCREEN_HEIGHT_def
        LEVEL_LENGTH_def SCREEN_WIDTH_def LEVEL_SCROLL_LENGTH_def rect_right_def)
  obtain b where b: "load_level_from [far_goal_level] (Some 0) (LevelManager 1) = Inr b"
      "level_length b = 100120"
    using load_level_from_Some [of "[far_goal_level]" 0 "LevelManager 1"]
    by (auto simp: far_levels R_def TILE_def TILE_SIZE_def GROUND_Y_def SCREEN_HEIGHT_def
        LEVEL_LENGTH_def SCREEN_WIDTH_def LEVEL_SCROLL_LENGTH_def rect_right_def)
  from a b show ?thesis by simp
qed

theorem load_level_does_not_validate_witness:
  "[far_goal_level] \<noteq> []
   \<and> (\<exists>lm'. load_level_from [far_goal_level] (Some 7) (LevelManager 1) = Inr lm'
        \<and> goal_rect lm' = Some (Rect 100000 540 80 120)
        \<and> level_length lm' = 100120)"
  using load_level_does_not_validate [of "[far_goal_level]" 7 "LevelManager 1"]
  by (auto simp: far_levels TILE_def TILE_SIZE_def
        LEVEL_LENGTH_def SCREEN_WIDTH_def LEVEL_SCROLL_LENGTH_def rect_right_def)

section \<open>Disappearing platforms\<close>

subsection \<open>What loading establishes\<close>

lemma add_disappearing_distinct:
  "distinct plats \<Longrightarrow> distinct (fst (add_disappearing es plats dps))"
  by (induction es arbitrary: plats dps) (simp_all add: Let_def)

lemma add_disappearing_fresh:
  "\<forall>d \<in> set dps. \<not> dp_is_removed d \<Longrightarrow>
   \<forall>d \<in> set (snd (add_disappearing es plats dps)). \<not> dp_is_removed d"
proof (induction es arbitrary: plats dps)
  case Nil
  then show ?case by simp
next
  case (Cons e es)
  let ?t = "Rect_of (snd e)"
  let ?plats1 = "if ?t \<in> set plats then plats else plats @ [?t]"
  let ?dps1 = "dps @ [DisappearingPlatform (fst e) ?t]"
  have "\<forall>d \<in> set ?dps1. \<not> dp_is_removed d"
    using Cons.prems by (auto simp: DisappearingPlatform_def)
  from Cons.IH [OF this, of ?plats1] show ?case by (simp add: Let_def)
qed

lemma add_disappearing_solid:
  "\<forall>d \<in> set dps. dp_target_platform_rect d \<in> set plats \<Longrightarrow>
   \<forall>d \<in> set (snd (add_disappearing es plats dps)).
      dp_target_platform_rect d \<in> set (fst (add_disappearing es plats dps))"
proof (induction es arbitrary: plats dps)
  case Nil
  then show ?case by simp
next
  case (Cons e es)
  let ?t = "Rect_of (snd e)"
  let ?plats1 = "if ?t \<in> set plats then plats else plats @ [?t]"
  let ?dps1 = "dps @ [DisappearingPlatform (fst e) ?t]"
  have "\<forall>d \<in> set ?dps1. dp_target_platform_rect d \<in> set ?plats1"
    using Cons.prems by (auto simp: DisappearingPlatform_def)
  from Cons.IH [OF this] show ?case by (simp add: Let_def)
qed

lemma py_index_mem: "py_index xs i = Inr b \<Longrightarrow> b \<in> set xs"
  by (auto simp: py_index_def Let_def split: if_splits)

lemma load_level_from_platforms:
  assumes "load_level_from table index lm0 = Inr lm"
  shows "\<exists>b \<in> set table.
           platforms lm = fst (add_disappearing (bp_disappear b) (map Rect_of (bp_platforms b)) [])
         \<and> disappearing_platforms lm
             = snd (add_disappearing (bp_disappear b) (map Rect_of (bp_platforms b)) [])"
proof -
  obtain idx where "(case index of None \<Rightarrow> Inr (current_level_index lm0)
                        | Some i \<Rightarrow> py_mod i (int (length table))) = Inr idx"
    using assms unfolding load_level_from_def by (auto split: sum.splits)
  note i = this
  obtain b where b: "py_index table idx = Inr b"
    using assms unfolding load_level_from_def i by (auto split: sum.splits)
  have "b \<in> set table" using b by (rule py_index_mem)
  moreover have "platforms lm = fst (add_disappearing (bp_disappear b) (map Rect_of (bp_platforms b)) [])
         \<and> disappearing_platforms lm
             = snd (add_disappearing (bp_disappear b) (map Rect_of (bp_platforms b)) [])"
    using assms unfolding load_level_from_def i
    by (auto simp: b Let_def split: if_splits)
  ultimately show ?thesis by blast
qed

lemma blueprint_platforms_distinct:
  "\<forall>b \<in> set LEVEL_BLUEPRINTS. distinct (map Rect_of (bp_platforms b))"
  by (simp add: LEVEL_BLUEPRINTS_def level_1_def level_2_def level_3_def level_4_def level_5_def
      level_6_def level_7_def level_8_def level_9_def level_10_def level_11_def level_12_def
      level_13_def R_def TILE_def TILE_SIZE_def GROUND_Y_def SCREEN_HEIGHT_def)

subsection \<open>What the hazard update preserves\<close>

lemma dp_update_fixed:
  "dp_trigger_rect (dp_update dt pr d) = dp_trigger_rect d
   \<and> dp_target_platform_rect (dp_update dt pr d) = dp_target_platform_rect d"
  by (simp add: dp_update_def)

lemma dp_update_removed:
  "dp_is_removed (dp_update dt pr d) = (dp_is_removed d \<or> touches pr (dp_trigger_rect d))"
  by (simp add: dp_update_def)

lemma update_disappearing_fst:
  "fst (update_disappearing dt pr ds plats) = map (dp_update dt pr) ds"
  by (induction ds arbitrary: plats) (simp_all add: Let_def)

lemma update_disappearing_shrinks:
  "set (snd (update_disappearing dt pr ds plats)) \<subseteq> set plats"
proof (induction ds arbitrary: plats)
  case Nil
  show ?case by simp
next
  case (Cons d ds)
  let ?d1 = "dp_update dt pr d"
  let ?plats1 = "if dp_is_removed ?d1 \<and> dp_target_platform_rect ?d1 \<in> set plats
                 then remove1 (dp_target_platform_rect ?d1) plats else plats"
  have "set (snd (update_disappearing dt pr ds ?plats1)) \<subseteq> set ?plats1" by (rule Cons.IH)
  also have "\<dots> \<subseteq> set plats" using set_remove1_subset [of "dp_target_platform_rect ?d1" plats] by auto
  finally show ?case by (simp add: Let_def)
qed

lemma update_disappearing_distinct:
  "distinct plats \<Longrightarrow> distinct (snd (update_disappearing dt pr ds plats))"
  by (induction ds arbitrary: plats) (simp_all add: Let_def)

lemma update_disappearing_removes:
  assumes "distinct plats"
  shows "\<forall>d \<in> set ds. dp_is_removed (dp_update dt pr d) \<longrightarrow>
           dp_target_platform_rect d \<notin> set (snd (update_disappearing dt pr ds plats))"
  using assms
proof (induction ds arbitrary: plats)
  case Nil
  show ?case by simp
next
  case (Cons d ds)
  let ?d1 = "dp_update dt pr d"
  let ?t = "dp_target_platform_rect ?d1"
  let ?plats1 = "if dp_is_removed ?d1 \<and> ?t \<in> set plats then remove1 ?t plats else plats"
  have res: "snd (update_disappearing dt pr (d # ds) plats) = snd (update_disappearing dt pr ds ?plats1)"
    by (simp add: Let_def)
  have d1: "distinct ?plats1" using Cons.prems by simp
  have head: "dp_is_removed ?d1 \<longrightarrow> dp_target_platform_rect d \<notin> set ?plats1"
    using Cons.prems by (simp add: dp_update_fixed)
  have "dp_is_removed ?d1 \<longrightarrow>
          dp_target_platform_rect d \<notin> set (snd (update_disappearing dt pr ds ?plats1))"
    using head update_disappearing_shrinks [of dt pr ds ?plats1] by blast
  moreover have "\<forall>e \<in> set ds. dp_is_removed (dp_update dt pr e) \<longrightarrow>
           dp_target_platform_rect e \<notin> set (snd (update_disappearing dt pr ds ?plats1))"
    by (rule Cons.IH [OF d1])
  ultimately show ?case unfolding res by simp
qed

lemma update_hazards_platforms:
  "disappearing_platforms (update_hazards dt r lm)
     = map (dp_update dt (Some r)) (disappearing_platforms lm)
   \<and> platforms (update_hazards dt r lm)
     = snd (update_disappearing dt (Some r) (disappearing_platforms lm) (platforms lm))"
  by (simp add: update_hazards_def Let_def update_disappearing_fst)

lemma update_hazards_invariant:
  assumes "distinct (platforms lm)"
    and "\<forall>d \<in> set (disappearing_platforms lm).
           dp_is_removed d \<longrightarrow> dp_target_platform_rect d \<notin> set (platforms lm)"
  shows "distinct (platforms (update_hazards dt r lm))
       \<and> (\<forall>d \<in> set (disappearing_platforms (update_hazards dt r lm)).
           dp_is_removed d \<longrightarrow> dp_target_platform_rect d \<notin> set (platforms (update_hazards dt r lm)))"
  using update_disappearing_removes [OF assms(1), of "disappearing_platforms lm" dt "Some r"]
  by (auto simp: update_hazards_platforms update_disappearing_distinct [OF assms(1)] dp_update_fixed)

lemma hazards_run_append: "hazards_run lm (cs @ ds) = hazards_run (hazards_run lm cs) ds"
  by (induction cs arbitrary: lm) simp_all

lemma hazards_run_invariant:
  assumes "distinct (platforms lm)"
    and "\<forall>d \<in> set (disappearing_platforms lm).
           dp_is_removed d \<longrightarrow> dp_target_platform_rect d \<notin> set (platforms lm)"
  shows "distinct (platforms (hazards_run lm cs))
       \<and> (\<forall>d \<in> set (disappearing_platforms (hazards_run lm cs)).
           dp_is_removed d \<longrightarrow> dp_target_platform_rect d \<notin> set (platforms (hazards_run lm cs)))"
  using assms
proof (induction cs arbitrary: lm)
  case Nil
  then show ?case by simp
next
  case (Cons c cs)
  have "distinct (platforms (update_hazards (fst c) (snd c) lm))
       \<and> (\<forall>d \<in> set (disappearing_platforms (update_hazards (fst c) (snd c) lm)).
           dp_is_removed d \<longrightarrow> dp_target_platform_rect d \<notin> set (platforms (update_hazards (fst c) (snd c) lm)))"
    by (rule update_hazards_invariant) (use Cons.prems in auto)
  then show ?case using Cons.IH [of "update_hazards (fst c) (snd c) lm"] by simp
qed

lemma hazards_run_nth:
  assumes "k < length (disappearing_platforms lm)"
  shows "k < length (disappearing_platforms (hazards_run lm cs))
       \<and> dp_trigger_rect (disappearing_platforms (hazards_run lm cs) ! k)
           = dp_trigger_rect (disappearing_platforms lm ! k)
       \<and> dp_target_platform_rect (disappearing_platforms (hazards_run lm cs) ! k)
           = dp_target_platform_rect (disappearing_platforms lm ! k)
       \<and> (dp_is_removed (disappearing_platforms lm ! k)
            \<longrightarrow> dp_is_removed (disappearing_platforms (hazards_run lm cs) ! k))"
  using assms
proof (induction cs arbitrary: lm)
  case Nil
  then show ?case by simp
next
  case (Cons c cs)
  let ?lm1 = "update_hazards (fst c) (snd c) lm"
  have k1: "k < length (disappearing_platforms ?lm1)"
    using Cons.prems by (simp add: update_hazards_platforms)
  have step: "dp_trigger_rect (disappearing_platforms ?lm1 ! k) = dp_trigger_rect (disappearing_platforms lm ! k)
     \<and> dp_target_platform_rect (disappearing_platforms ?lm1 ! k) = dp_target_platform_rect (disappearing_platforms lm ! k)
     \<and> (dp_is_removed (disappearing_platforms lm ! k) \<longrightarrow> dp_is_removed (disappearing_platforms ?lm1 ! k))"
    using Cons.prems by (simp add: update_hazards_platforms dp_update_fixed dp_update_removed)
  from Cons.IH [OF k1] step show ?case by simp
qed

lemma removed_stays_absent:
  assumes "distinct (platforms lm)"
    and "\<forall>d \<in> set (disappearing_platforms lm).
           dp_is_removed d \<longrightarrow> dp_target_platform_rect d \<notin> set (platforms lm)"
    and "k < length (disappearing_platforms lm)"
    and "dp_is_removed (disappearing_platforms lm ! k)"
  shows "dp_target_platform_rect (disappearing_platforms lm ! k) \<notin> set (platforms (hazards_run lm cs))"
proof -
  let ?lm' = "hazards_run lm cs"
  from hazards_run_nth [OF assms(3), of cs] assms(4)
  have k: "k < length (disappearing_platforms ?lm')"
    and t: "dp_target_platform_rect (disappearing_platforms ?lm' ! k)
              = dp_target_platform_rect (disappearing_platforms lm ! k)"
    and r: "dp_is_removed (disappearing_platforms ?lm' ! k)" by simp_all
  from hazards_run_invariant [OF assms(1,2), of cs] k r
  have "dp_target_platform_rect (disappearing_platforms ?lm' ! k) \<notin> set (platforms ?lm')"
    using nth_mem by blast
  then show ?thesis unfolding t .
qed

text \<open>
  Claim C6. Take a level as \<open>load_level\<close> leaves it and any of its disappearing
  platforms. Its target rectangle is one of the platforms after the load. After any
  sequence of \<open>update_hazards\<close> calls, one call whose player rectangle touches the trigger
  zone, and any further sequence of calls (none included), the target rectangle is not
  among the platforms.
\<close>

theorem disappearing_platform_gone_for_good:
  assumes "load_level index lm0 = Inr lm"
    and "k < length (disappearing_platforms lm)"
    and "touches (Some (snd c)) (dp_trigger_rect (disappearing_platforms lm ! k))"
  shows "dp_target_platform_rect (disappearing_platforms lm ! k) \<in> set (platforms lm)
       \<and> dp_target_platform_rect (disappearing_platforms lm ! k)
           \<notin> set (platforms (hazards_run lm (before @ c # later)))"
proof -
  from load_level_from_platforms [OF assms(1) [unfolded load_level_def]]
  obtain b where b: "b \<in> set LEVEL_BLUEPRINTS"
    and p: "platforms lm = fst (add_disappearing (bp_disappear b) (map Rect_of (bp_platforms b)) [])"
    and d: "disappearing_platforms lm = snd (add_disappearing (bp_disappear b) (map Rect_of (bp_platforms b)) [])"
    by blast
  have dist: "distinct (platforms lm)"
    unfolding p using blueprint_platforms_distinct b by (intro add_disappearing_distinct) blast
  have fresh: "\<forall>e \<in> set (disappearing_platforms lm). \<not> dp_is_removed e"
    unfolding d by (rule add_disappearing_fresh) simp
  have solid: "\<forall>e \<in> set (disappearing_platforms lm). dp_target_platform_rect e \<in> set (platforms lm)"
    unfolding d p by (rule add_disappearing_solid) simp
  let ?lm1 = "hazards_run lm before"
  let ?lm2 = "update_hazards (fst c) (snd c) ?lm1"
  have inv1: "distinct (platforms ?lm1)
       \<and> (\<forall>e \<in> set (disappearing_platforms ?lm1).
           dp_is_removed e \<longrightarrow> dp_target_platform_rect e \<notin> set (platforms ?lm1))"
    by (rule hazards_run_invariant [OF dist]) (use fresh in blast)
  have inv2: "distinct (platforms ?lm2)
       \<and> (\<forall>e \<in> set (disappearing_platforms ?lm2).
           dp_is_removed e \<longrightarrow> dp_target_platform_rect e \<notin> set (platforms ?lm2))"
    by (rule update_hazards_invariant) (use inv1 in auto)
  from hazards_run_nth [OF assms(2), of before]
  have k1: "k < length (disappearing_platforms ?lm1)"
    and tr1: "dp_trigger_rect (disappearing_platforms ?lm1 ! k) = dp_trigger_rect (disappearing_platforms lm ! k)"
    and tg1: "dp_target_platform_rect (disappearing_platforms ?lm1 ! k) = dp_target_platform_rect (disappearing_platforms lm ! k)"
    by simp_all
  have k2: "k < length (disappearing_platforms ?lm2)" using k1 by (simp add: update_hazards_platforms)
  have tg2: "dp_target_platform_rect (disappearing_platforms ?lm2 ! k) = dp_target_platform_rect (disappearing_platforms lm ! k)"
    using k1 tg1 by (simp add: update_hazards_platforms dp_update_fixed)
  have rm2: "dp_is_removed (disappearing_platforms ?lm2 ! k)"
    using k1 tr1 assms(3) by (simp add: update_hazards_platforms dp_update_removed)
  have "dp_target_platform_rect (disappearing_platforms ?lm2 ! k) \<notin> set (platforms (hazards_run ?lm2 later))"
    by (rule removed_stays_absent) (use inv2 k2 rm2 in auto)
  then have "dp_target_platform_rect (disappearing_platforms lm ! k)
           \<notin> set (platforms (hazards_run lm (before @ c # later)))"
    by (simp add: hazards_run_append tg2)
  moreover have "dp_target_platform_rect (disappearing_platforms lm ! k) \<in> set (platforms lm)"
    using solid assms(2) nth_mem by blast
  ultimately show ?thesis by simp
qed

lemma level1_loaded_eval:
  "load_level (Some 0) (LevelManager 1) = Inr level1_loaded
   \<and> disappearing_platforms level1_loaded
       = [\<lparr>dp_trigger_rect = Rect 1400 460 80 80, dp_target_platform_rect = Rect 1400 500 200 40,
           dp_is_removed = False\<rparr>]"
proof -
  have ne: "LEVEL_BLUEPRINTS \<noteq> []" using blueprint_count by auto
  have b: "LEVEL_BLUEPRINTS ! nat (0 mod int (length LEVEL_BLUEPRINTS)) = level_1"
    by (simp add: LEVEL_BLUEPRINTS_def)
  have e: "snd (add_disappearing (bp_disappear level_1) (map Rect_of (bp_platforms level_1)) [])
      = [\<lparr>dp_trigger_rect = Rect 1400 460 80 80, dp_target_platform_rect = Rect 1400 500 200 40,
           dp_is_removed = False\<rparr>]"
    by (simp add: level_1_def R_def TILE_def TILE_SIZE_def GROUND_Y_def SCREEN_HEIGHT_def
        DisappearingPlatform_def Let_def)
  from load_level_from_Some [OF ne, of 0 "LevelManager 1"]
  obtain lm' where "load_level (Some 0) (LevelManager 1) = Inr lm'"
    and "disappearing_platforms lm'
         = snd (add_disappearing (bp_disappear level_1) (map Rect_of (bp_platforms level_1)) [])"
    unfolding load_level_def b by blast
  then show ?thesis by (simp add: level1_loaded_def e)
qed

theorem disappearing_platform_gone_for_good_witness:
  "load_level (Some 0) (LevelManager 1) = Inr level1_loaded
   \<and> 0 < length (disappearing_platforms level1_loaded)
   \<and> touches (Some (Rect 1410 470 40 60)) (dp_trigger_rect (disappearing_platforms level1_loaded ! 0))
   \<and> Rect 1400 500 200 40 \<in> set (platforms level1_loaded)
   \<and> Rect 1400 500 200 40 \<notin> set (platforms (hazards_run level1_loaded
        ([(0.016, Rect 80 580 40 60)] @ (0.016, Rect 1410 470 40 60) # [(0.016, Rect 80 580 40 60)])))"
proof -
  have l: "load_level (Some 0) (LevelManager 1) = Inr level1_loaded" using level1_loaded_eval by simp
  have k: "0 < length (disappearing_platforms level1_loaded)" using level1_loaded_eval by simp
  have t: "touches (Some (snd (0.016 :: real, Rect 1410 470 40 60)))
             (dp_trigger_rect (disappearing_platforms level1_loaded ! 0))"
    using level1_loaded_eval by (simp add: touches_def rect_truthy_def colliderect_def)
  from disappearing_platform_gone_for_good [OF l k t,
      of "[(0.016, Rect 80 580 40 60)]" "[(0.016, Rect 80 580 40 60)]"] l k t level1_loaded_eval
  show ?thesis by simp
qed

section \<open>Death before victory\<close>

lemma update_hazards_attempts:
  "current_attempts (update_hazards dt r lm) = current_attempts lm
   \<and> goal_rect (update_hazards dt r lm) = goal_rect lm
   \<and> level_id (update_hazards dt r lm) = level_id lm"
  by (simp add: update_hazards_def Let_def)

lemma physics_and_hazards_keeps:
  "g_state (physics_and_hazards ks g) = g_state g
   \<and> g_attempt_log (physics_and_hazards ks g) = g_attempt_log g
   \<and> g_death_log (physics_and_hazards ks g) = g_death_log g
   \<and> g_last_victory_stars (physics_and_hazards ks g) = g_last_victory_stars g
   \<and> current_attempts (g_level_manager (physics_and_hazards ks g)) = current_attempts (g_level_manager g)"
  by (simp add: physics_and_hazards_def Let_def update_hazards_attempts)

lemma handle_death_effect:
  "current_attempts (g_level_manager (handle_death pos g)) = current_attempts (g_level_manager g) + 1
   \<and> (g_state (handle_death pos g) = DIALOGUE \<or> g_state (handle_death pos g) = DEATH_MENU)
   \<and> g_attempt_log (handle_death pos g) = g_attempt_log g
   \<and> g_last_victory_stars (handle_death pos g) = g_last_victory_stars g
   \<and> length (g_death_log (handle_death pos g)) = length (g_death_log g) + 1"
  by (simp add: handle_death_def increment_attempts_def Let_def)

lemma handle_victory_effect:
  "g_state (handle_victory g) = VICTORY
   \<and> g_level_manager (handle_victory g) = g_level_manager g
   \<and> g_death_log (handle_victory g) = g_death_log g"
  by (simp add: handle_victory_def Let_def split: option.splits)

lemma update_camera_keeps:
  "g_state (update_camera g) = g_state g \<and> g_level_manager (update_camera g) = g_level_manager g
   \<and> g_death_log (update_camera g) = g_death_log g"
  by (simp add: update_camera_def Let_def)

text \<open>
  Claim C9. In the playing update the death check comes first. When, after the player and
  hazard updates of the frame, the player is below the world-bottom threshold or collides
  with a hazard, the frame is exactly the death handling: the attempt counter goes up by one,
  the state becomes the dialogue or the death menu, and nothing of the victory handling
  happens (no attempt is recorded, the victory stars are untouched), whether or not the
  player also touches the inflated goal. From the playing state the frame ends in victory
  exactly when the death check is false and the goal check is true.
\<close>

theorem death_has_priority:
  "(death_check (physics_and_hazards ks g) \<longrightarrow>
      update_play ks g
        = handle_death (rect_centerx (p_rect (g_player (physics_and_hazards ks g))),
                        rect_centery (p_rect (g_player (physics_and_hazards ks g))))
            (physics_and_hazards ks g)
      \<and> current_attempts (g_level_manager (update_play ks g))
          = current_attempts (g_level_manager g) + 1
      \<and> (g_state (update_play ks g) = DIALOGUE \<or> g_state (update_play ks g) = DEATH_MENU)
      \<and> g_attempt_log (update_play ks g) = g_attempt_log g
      \<and> g_last_victory_stars (update_play ks g) = g_last_victory_stars g)
   \<and> (g_state g = PLAYING \<longrightarrow>
        (g_state (update_play ks g) = VICTORY)
          = (\<not> death_check (physics_and_hazards ks g) \<and> goal_check (physics_and_hazards ks g)))
   \<and> (update_play ks g = handle_victory (physics_and_hazards ks g) \<longrightarrow>
        \<not> death_check (physics_and_hazards ks g))"
proof (intro conjI impI)
  assume d: "death_check (physics_and_hazards ks g)"
  let ?g1 = "physics_and_hazards ks g"
  let ?pos = "(rect_centerx (p_rect (g_player ?g1)), rect_centery (p_rect (g_player ?g1)))"
  have u: "update_play ks g = handle_death ?pos ?g1" using d by (simp add: update_play_def Let_def)
  show "update_play ks g = handle_death ?pos ?g1" by (rule u)
  show "current_attempts (g_level_manager (update_play ks g)) = current_attempts (g_level_manager g) + 1"
    unfolding u using handle_death_effect [of ?pos ?g1] physics_and_hazards_keeps [of ks g] by simp
  show "g_state (update_play ks g) = DIALOGUE \<or> g_state (update_play ks g) = DEATH_MENU"
    unfolding u using handle_death_effect [of ?pos ?g1] by simp
  show "g_attempt_log (update_play ks g) = g_attempt_log g"
    unfolding u using handle_death_effect [of ?pos ?g1] physics_and_hazards_keeps [of ks g] by simp
  show "g_last_victory_stars (update_play ks g) = g_last_victory_stars g"
    unfolding u using handle_death_effect [of ?pos ?g1] physics_and_hazards_keeps [of ks g] by simp
next
  assume p: "g_state g = PLAYING"
  let ?g1 = "physics_and_hazards ks g"
  show "(g_state (update_play ks g) = VICTORY) = (\<not> death_check ?g1 \<and> goal_check ?g1)"
  proof (cases "death_check ?g1")
    case True
    then have "update_play ks g = handle_death (rect_centerx (p_rect (g_player ?g1)), rect_centery (p_rect (g_player ?g1))) ?g1"
      by (simp add: update_play_def Let_def)
    then have "g_state (update_play ks g) \<noteq> VICTORY"
      using handle_death_effect [of "(rect_centerx (p_rect (g_player ?g1)), rect_centery (p_rect (g_player ?g1)))" ?g1]
      by auto
    with True show ?thesis by simp
  next
    case False
    show ?thesis
    proof (cases "goal_check ?g1")
      case True
      with False have "update_play ks g = handle_victory ?g1" by (simp add: update_play_def Let_def)
      with False True show ?thesis by (simp add: handle_victory_effect)
    next
      case g: False
      with False have "update_play ks g = update_camera ?g1" by (simp add: update_play_def Let_def)
      with False g p show ?thesis by (simp add: update_camera_keeps physics_and_hazards_keeps)
    qed
  qed
next
  assume v: "update_play ks g = handle_victory (physics_and_hazards ks g)"
  let ?g1 = "physics_and_hazards ks g"
  show "\<not> death_check ?g1"
  proof
    assume d: "death_check ?g1"
    then have "update_play ks g = handle_death (rect_centerx (p_rect (g_player ?g1)), rect_centery (p_rect (g_player ?g1))) ?g1"
      by (simp add: update_play_def Let_def)
    then have "g_state (update_play ks g) \<noteq> VICTORY"
      using handle_death_effect [of "(rect_centerx (p_rect (g_player ?g1)), rect_centery (p_rect (g_player ?g1)))" ?g1]
      by auto
    with v show False by (simp add: handle_victory_effect)
  qed
qed

lemma resolve_nothing: "resolve_collisions axis [] p = p"
  by (simp add: resolve_collisions_def)

lemma move_x_free:
  "p_rect (move_x [] lvl p)
     = set_x (p_rect p) (max 0 (min (rect_x (p_rect p) + py_int (p_vel_x p)) (lvl - rect_w (p_rect p))))"
  by (simp add: move_x_def resolve_nothing Let_def set_x_def)

lemma move_y_free:
  "p_rect (move_y [] p) = set_y (p_rect p) (rect_y (p_rect p) + py_int (p_vel_y p))"
  by (simp add: move_y_def resolve_nothing)

lemma move_x_vel: "p_vel_y (move_x [] lvl p) = p_vel_y p"
  by (simp add: move_x_def resolve_nothing Let_def)

lemma before_jump_free:
  "p_rect (before_jump dt [] lvl p)
     = set_y (set_x (p_rect p)
               (max 0 (min (rect_x (p_rect p) + py_int (p_vel_x p)) (lvl - rect_w (p_rect p)))))
             (rect_y (p_rect p) + py_int (apply_gravity (p_vel_y p)))"
  by (simp add: before_jump_def Let_def move_y_free move_x_free move_x_vel set_x_def)

lemma p_update_free:
  "p_rect (fst (p_update dt [] lvl p))
     = set_y (set_x (p_rect p)
               (max 0 (min (rect_x (p_rect p) + py_int (p_vel_x p)) (lvl - rect_w (p_rect p)))))
             (rect_y (p_rect p) + py_int (apply_gravity (p_vel_y p)))"
  by (simp add: p_update_def consume_keeps_rect before_jump_free)

lemma doomed_player:
  "p_rect (fst (p_update dt [] 3840 (handle_input no_keys (Player (100, 100))))) = Rect 100 100 40 60"
  by (simp add: p_update_free handle_input_def no_keys_def Player_def Let_def
      apply_gravity_def GRAVITY_def MAX_FALL_SPEED_def py_int_def TILE_SIZE_def set_x_def set_y_def)


lemma doomed_fields:
  "g_player doomed = Player (100, 100) \<and> g_delta doomed = 0.016
   \<and> platforms (g_level_manager doomed) = []
   \<and> level_length (g_level_manager doomed) = 3840
   \<and> static_traps (g_level_manager doomed) = [Rect 90 90 100 100]
   \<and> goal_rect (g_level_manager doomed) = Some (Rect 100 100 40 40)
   \<and> disappearing_platforms (g_level_manager doomed) = []
   \<and> current_attempts (g_level_manager doomed) = 0
   \<and> g_state doomed = PLAYING \<and> g_attempt_log doomed = []"
  by (simp add: doomed_def trap_on_goal_def LevelManager_def Let_def
      LEVEL_LENGTH_def SCREEN_WIDTH_def LEVEL_SCROLL_LENGTH_def)

lemma update_hazards_traps:
  "static_traps (update_hazards dt r lm) = static_traps lm"
  by (simp add: update_hazards_def Let_def)

lemma physics_and_hazards_parts:
  "g_player (physics_and_hazards ks g)
     = fst (p_update (g_delta g) (platforms (g_level_manager g)) (level_length (g_level_manager g))
              (handle_input ks (g_player g)))
   \<and> static_traps (g_level_manager (physics_and_hazards ks g)) = static_traps (g_level_manager g)
   \<and> goal_rect (g_level_manager (physics_and_hazards ks g)) = goal_rect (g_level_manager g)"
  by (simp add: physics_and_hazards_def Let_def update_hazards_traps update_hazards_attempts)

lemma doomed_frame:
  "p_rect (g_player (physics_and_hazards no_keys doomed)) = Rect 100 100 40 60
   \<and> static_traps (g_level_manager (physics_and_hazards no_keys doomed)) = [Rect 90 90 100 100]
   \<and> goal_rect (g_level_manager (physics_and_hazards no_keys doomed)) = Some (Rect 100 100 40 40)"
  by (simp only: physics_and_hazards_parts doomed_fields doomed_player simp_thms)

lemma doomed_checks:
  "death_check (physics_and_hazards no_keys doomed) \<and> goal_check (physics_and_hazards no_keys doomed)"
proof -
  have "colliderect (Rect 90 90 100 100) (Rect 100 100 40 60)"
    by (simp add: colliderect_def)
  then have "check_hazard_collision (g_level_manager (physics_and_hazards no_keys doomed)) (Rect 100 100 40 60)"
    by (simp add: check_hazard_collision_def doomed_frame)
  then have d: "death_check (physics_and_hazards no_keys doomed)"
    by (simp add: death_check_def doomed_frame)
  have "rect_truthy (Rect 100 100 40 40) \<and> colliderect (Rect 100 100 40 60) (inflate (Rect 100 100 40 40) 25 25)"
    by (simp add: colliderect_def inflate_def c_half_def rect_truthy_def)
  then have "goal_check (physics_and_hazards no_keys doomed)"
    by (simp add: goal_check_def doomed_frame)
  with d show ?thesis by simp
qed

theorem death_has_priority_witness:
  "death_check (physics_and_hazards no_keys doomed)
   \<and> goal_check (physics_and_hazards no_keys doomed)
   \<and> g_state doomed = PLAYING
   \<and> g_state (update_play no_keys doomed) \<noteq> VICTORY
   \<and> current_attempts (g_level_manager (update_play no_keys doomed)) = 1
   \<and> g_attempt_log (update_play no_keys doomed) = []"
  using death_has_priority [of no_keys doomed] doomed_checks doomed_fields
  by auto

end
